theory Spec2Isabelle
  imports Main "HOL-Library.Multiset"
begin

section \<open>JavaScript numbers and array slicing\<close>

text \<open>
  The worker (src/index.ts) computes with JavaScript numbers that come from
  \<^verbatim>\<open>Number(...)\<close> applied to configuration strings and query parameters. Such a value
  is either \<^verbatim>\<open>NaN\<close> (the text is not numeric) or a number. The integer-valued
  numbers and \<^verbatim>\<open>NaN\<close> are modelled; fractional values and the infinities are outside
  this development.
\<close>

datatype jsnum = NaN | Num int

text \<open>\<^verbatim>\<open>Math.max\<close> and \<^verbatim>\<open>Math.min\<close>: the result is \<^verbatim>\<open>NaN\<close> as soon as one argument is.\<close>

fun js_max :: "jsnum \<Rightarrow> jsnum \<Rightarrow> jsnum" where
  "js_max (Num a) (Num b) = Num (max a b)"
| "js_max _ _ = NaN"

fun js_min :: "jsnum \<Rightarrow> jsnum \<Rightarrow> jsnum" where
  "js_min (Num a) (Num b) = Num (min a b)"
| "js_min _ _ = NaN"

fun js_add :: "jsnum \<Rightarrow> jsnum \<Rightarrow> jsnum" where
  "js_add (Num a) (Num b) = Num (a + b)"
| "js_add _ _ = NaN"

text \<open>The comparisons \<^verbatim>\<open><\<close> and \<^verbatim>\<open>>\<close>: false whenever an operand is \<^verbatim>\<open>NaN\<close>.\<close>

fun js_lt :: "jsnum \<Rightarrow> jsnum \<Rightarrow> bool" where
  "js_lt (Num a) (Num b) = (a < b)"
| "js_lt _ _ = False"

fun js_gt :: "jsnum \<Rightarrow> jsnum \<Rightarrow> bool" where
  "js_gt (Num a) (Num b) = (a > b)"
| "js_gt _ _ = False"

text \<open>\<^verbatim>\<open>ToIntegerOrInfinity\<close>: \<^verbatim>\<open>NaN\<close> becomes 0.\<close>

fun to_integer :: "jsnum \<Rightarrow> int" where
  "to_integer NaN = 0"
| "to_integer (Num n) = n"

text \<open>
  The index normalisation of \<^verbatim>\<open>Array.prototype.slice\<close>: a negative index counts from
  the end and stops at 0, any other index stops at the length.
\<close>

definition rel_index :: "nat \<Rightarrow> jsnum \<Rightarrow> nat" where
  "rel_index len x =
     (let r = to_integer x
      in if r < 0 then nat (max (int len + r) 0) else min (nat r) len)"

definition js_slice :: "'a list \<Rightarrow> jsnum \<Rightarrow> jsnum \<Rightarrow> 'a list" where
  "js_slice xs s e =
     (let k = rel_index (length xs) s; f = rel_index (length xs) e
      in take (f - k) (drop k xs))"

text \<open>\<^verbatim>\<open>ToLength\<close>, as \<^verbatim>\<open>Array.from({ length: n }, ...)\<close> reads its length.\<close>

definition to_length :: "jsnum \<Rightarrow> nat" where
  "to_length x = nat (max (to_integer x) 0)"

section \<open>The batch planner (doPing, lines 243-246 and 265-271)\<close>

text \<open>
  \<^verbatim>\<open>const rawBudget = Number(env.SUBREQ_BUDGET ?? 45);\<close>
  \<^verbatim>\<open>const SUBREQ_BUDGET = Math.max(1, Math.min(rawBudget, 1000));\<close>
  The environment variable is given as the number \<^verbatim>\<open>Number\<close> reads from it, or
  \<open>None\<close> when it is not set.
\<close>

definition rawBudget :: "jsnum option \<Rightarrow> jsnum" where
  "rawBudget v = (case v of None \<Rightarrow> Num 45 | Some n \<Rightarrow> n)"

definition SUBREQ_BUDGET_of :: "jsnum option \<Rightarrow> jsnum" where
  "SUBREQ_BUDGET_of v = js_max (Num 1) (js_min (rawBudget v) (Num 1000))"

text \<open>\<^verbatim>\<open>const MAX_CONCURRENCY = Math.max(1, Math.min(concurrency, 6));\<close>\<close>

definition MAX_CONCURRENCY_of :: "jsnum \<Rightarrow> jsnum" where
  "MAX_CONCURRENCY_of concurrency = js_max (Num 1) (js_min concurrency (Num 6))"

text \<open>\<^verbatim>\<open>if (limit > 0) endpoints = endpoints.slice(0, limit);\<close>\<close>

definition apply_limit :: "jsnum \<Rightarrow> 'a list \<Rightarrow> 'a list" where
  "apply_limit limit endpoints =
     (if js_gt limit (Num 0) then js_slice endpoints (Num 0) limit else endpoints)"

record 'a batch_plan =
  bp_start :: jsnum
  bp_end :: jsnum
  bp_batch :: "'a list"
  bp_nextCursor :: "jsnum option"

text \<open>
  \<^verbatim>\<open>const start = Math.max(0, cursor);\<close>
  \<^verbatim>\<open>const end = Math.min(endpoints.length, start + SUBREQ_BUDGET);\<close>
  \<^verbatim>\<open>const batch = endpoints.slice(start, end);\<close>
  \<^verbatim>\<open>const nextCursor = end < endpoints.length ? end : null;\<close>
\<close>

definition plan :: "'a list \<Rightarrow> jsnum \<Rightarrow> jsnum \<Rightarrow> 'a batch_plan" where
  "plan endpoints budget cursor =
     (let start = js_max (Num 0) cursor;
          end = js_min (Num (int (length endpoints))) (js_add start budget);
          batch = js_slice endpoints start end;
          nextCursor = (if js_lt end (Num (int (length endpoints))) then Some end else None)
      in \<lparr>bp_start = start, bp_end = end, bp_batch = batch, bp_nextCursor = nextCursor\<rparr>)"

text \<open>
  The caller's loop of the README (``iterate with cursor''): start at the given cursor,
  call again with the reported \<^verbatim>\<open>nextCursor\<close> until it is \<^verbatim>\<open>null\<close>. Every call
  recomputes the clamped budget from the environment, as doPing does. The result is
  the list of the plans of the successive invocations.
\<close>

function drive :: "jsnum option \<Rightarrow> 'a list \<Rightarrow> jsnum \<Rightarrow> 'a batch_plan list" where
  "drive env_budget endpoints cursor =
     (let p = plan endpoints (SUBREQ_BUDGET_of env_budget) cursor
      in case bp_nextCursor p of
           None \<Rightarrow> [p]
         | Some c \<Rightarrow> p # drive env_budget endpoints c)"
  by pat_completeness auto
termination
proof (relation "measure (\<lambda>(v, endpoints, c). nat (int (length endpoints) - to_integer c))")
  show "wf (measure (\<lambda>(v, endpoints, c). nat (int (length endpoints) - to_integer c)))"
    by simp
next
  fix env_budget :: "jsnum option" and endpoints :: "'a list" and cursor p c
  assume p: "p = plan endpoints (SUBREQ_BUDGET_of env_budget) cursor"
    and c: "bp_nextCursor p = Some c"
  have clamp: "SUBREQ_BUDGET_of env_budget = NaN
      \<or> (\<exists>b. SUBREQ_BUDGET_of env_budget = Num b \<and> 1 \<le> b)"
    by (cases "rawBudget env_budget") (auto simp: SUBREQ_BUDGET_of_def)
  from clamp
  show "((env_budget, endpoints, c), (env_budget, endpoints, cursor))
          \<in> measure (\<lambda>(v, endpoints, c). nat (int (length endpoints) - to_integer c))"
  proof
    assume "SUBREQ_BUDGET_of env_budget = NaN"
    with p c show ?thesis
      by (cases cursor) (simp_all add: plan_def Let_def)
  next
    assume "\<exists>b. SUBREQ_BUDGET_of env_budget = Num b \<and> 1 \<le> b"
    then obtain b where b: "SUBREQ_BUDGET_of env_budget = Num b" "1 \<le> b" by blast
    show ?thesis
    proof (cases cursor)
      case NaN
      with p c b show ?thesis by (simp add: plan_def Let_def)
    next
      case (Num n)
      with p c b show ?thesis
        by (auto simp: plan_def Let_def split: if_splits)
    qed
  qed
qed

declare drive.simps [simp del]

section \<open>The protocol encoder (escapeXml, xmlRpc)\<close>

text \<open>\<^verbatim>\<open>s.replaceAll(c, r)\<close> for a pattern of one character.\<close>

definition replaceAll :: "char \<Rightarrow> string \<Rightarrow> string \<Rightarrow> string" where
  "replaceAll c r s = concat (map (\<lambda>x. if x = c then r else [x]) s)"

text \<open>
  \<^verbatim>\<open>s.replaceAll("&", "&amp;").replaceAll("<", "&lt;").replaceAll(">", "&gt;")\<close>
  \<^verbatim>\<open> .replaceAll('"', "&quot;").replaceAll("'", "&apos;")\<close>: five passes, in this order.
\<close>

definition escapeXml :: "string \<Rightarrow> string" where
  "escapeXml s =
     replaceAll (CHR 0x27) ''&apos;''
       (replaceAll (CHR 0x22) ''&quot;''
         (replaceAll CHR ''>'' ''&gt;''
           (replaceAll CHR ''<'' ''&lt;''
             (replaceAll CHR ''&'' ''&amp;'' s))))"

definition param_open :: string where
  "param_open = ''<param><value><string>''"

definition param_close :: string where
  "param_close = ''</string></value></param>''"

definition xml_head :: string where
  "xml_head = ''<?xml version='' @ [CHR 0x22] @ ''1.0'' @ [CHR 0x22] @ ''?>'' @ [CHR 0x0A]
      @ ''<methodCall>'' @ [CHR 0x0A] @ ''  <methodName>''"

definition xml_mid :: string where
  "xml_mid = ''</methodName>'' @ [CHR 0x0A] @ ''  <params>''"

definition xml_tail :: string where
  "xml_tail = ''</params>'' @ [CHR 0x0A] @ ''</methodCall>''"

text \<open>
  \<^verbatim>\<open>params.map((p) => `<param><value><string>${escapeXml(String(p))}</string></value></param>`).join("")\<close>
  inside the fixed template; the method name is embedded as it is.
\<close>

definition xmlRpc :: "string \<Rightarrow> string list \<Rightarrow> string" where
  "xmlRpc method params =
     (let paramXml = concat (map (\<lambda>p. param_open @ escapeXml p @ param_close) params)
      in xml_head @ method @ xml_mid @ paramXml @ xml_tail)"

text \<open>
  What an unescaped occurrence is: in an escaped text, none of \<^verbatim>\<open>< > " '\<close> occurs, and
  every \<^verbatim>\<open>&\<close> starts one of the five entities.
\<close>

definition entities :: "string list" where
  "entities = [''amp;'', ''lt;'', ''gt;'', ''quot;'', ''apos;'']"

fun no_raw_reserved :: "string \<Rightarrow> bool" where
  "no_raw_reserved [] = True"
| "no_raw_reserved (c # cs) =
     (if c = CHR ''&'' then list_ex (\<lambda>e. take (length e) cs = e) entities \<and> no_raw_reserved cs
      else c \<noteq> CHR ''<'' \<and> c \<noteq> CHR ''>'' \<and> c \<noteq> CHR 0x22 \<and> c \<noteq> CHR 0x27
           \<and> no_raw_reserved cs)"

text \<open>The character-level reading of the escaping: one replacement text per character.\<close>

definition esc_char :: "char \<Rightarrow> string" where
  "esc_char c =
     (if c = CHR ''&'' then ''&amp;''
      else if c = CHR ''<'' then ''&lt;''
      else if c = CHR ''>'' then ''&gt;''
      else if c = CHR 0x22 then ''&quot;''
      else if c = CHR 0x27 then ''&apos;''
      else [c])"

section \<open>One ping (pingWithTimeout)\<close>

record ping_result =
  url :: string
  ok :: bool
  status :: int
  error :: "string option"
  ms :: "nat option"
  bodySnippet :: "string option"

text \<open>
  What one \<^verbatim>\<open>fetch\<close> call of pingWithTimeout ends with, the race against the abort
  timer included: a response (its status, its body text or \<open>None\<close> when reading the
  body fails, the elapsed milliseconds) or a rejection (the text of the exception, which
  is ``timeout'' when the timer fired, and the elapsed milliseconds).
\<close>

datatype net_reply = Responded int "string option" nat | Rejected string nat

text \<open>\<^verbatim>\<open>res.ok\<close>: the status is in the range 200-299.\<close>

definition res_ok :: "int \<Rightarrow> bool" where
  "res_ok st = (200 \<le> st \<and> st \<le> 299)"

definition pingWithTimeout :: "bool \<Rightarrow> string \<Rightarrow> net_reply \<Rightarrow> ping_result" where
  "pingWithTimeout verbose u reply =
     (case reply of
        Responded st body t \<Rightarrow>
          \<lparr>url = u, ok = res_ok st, status = st, error = None, ms = Some t,
           bodySnippet = (if verbose \<and> \<not> res_ok st
                          then (case body of Some b \<Rightarrow> Some (take 200 b) | None \<Rightarrow> None)
                          else None)\<rparr>
      | Rejected e t \<Rightarrow>
          \<lparr>url = u, ok = False, status = 0, error = Some e, ms = Some t, bodySnippet = None\<rparr>)"

section \<open>The worker pool (runPool)\<close>

text \<open>
  The state of the pool: the shared counter \<^verbatim>\<open>i\<close>, the indices the running workers
  are awaiting, the indices for which \<^verbatim>\<open>fn\<close> has been called (in call order) and the
  \<^verbatim>\<open>results\<close> array.
\<close>

record 'r pool =
  pl_i :: nat
  pl_waiting :: "nat list"
  pl_started :: "nat list"
  pl_results :: "'r list"

text \<open>
  A worker up to its next \<^verbatim>\<open>await\<close>:
  \<^verbatim>\<open>const idx = i++; if (idx >= items.length) break; ... await fn(items[idx])\<close>.
\<close>

definition worker_take :: "nat \<Rightarrow> 'r pool \<Rightarrow> 'r pool" where
  "worker_take len p =
     (let idx = pl_i p; p' = p\<lparr>pl_i := idx + 1\<rparr>
      in if idx \<ge> len then p'
         else p'\<lparr>pl_waiting := pl_waiting p' @ [idx], pl_started := pl_started p' @ [idx]\<rparr>)"

text \<open>\<^verbatim>\<open>Array.from({ length: n }, async () => ...)\<close> starts the workers one after the other.\<close>

definition pool_start :: "nat \<Rightarrow> nat \<Rightarrow> 'r pool" where
  "pool_start len n =
     ((worker_take len) ^^ n) \<lparr>pl_i = 0, pl_waiting = [], pl_started = [], pl_results = []\<rparr>"

text \<open>
  The event loop: while some worker is awaiting, one of the awaited calls completes (the
  schedule chooses which one; an exhausted schedule chooses the first), its worker
  pushes the result and goes on to its next index. Every completion order of the calls
  is the run of some schedule.
\<close>

function pool_loop :: "'a list \<Rightarrow> (nat \<Rightarrow> 'a \<Rightarrow> 'r) \<Rightarrow> nat list \<Rightarrow> 'r pool \<Rightarrow> 'r pool" where
  "pool_loop items fn sched p =
     (if pl_waiting p = [] then p
      else
        let k = (case sched of [] \<Rightarrow> 0 | c # _ \<Rightarrow> c mod length (pl_waiting p));
            idx = pl_waiting p ! k;
            p1 = p\<lparr>pl_results := pl_results p @ [fn idx (items ! idx)],
                   pl_waiting := take k (pl_waiting p) @ drop (Suc k) (pl_waiting p)\<rparr>
        in pool_loop items fn (tl sched) (worker_take (length items) p1))"
  by pat_completeness auto
termination
proof (relation "measure (\<lambda>(items, fn, sched, p). (length items - pl_i p) + length (pl_waiting p))")
  show "wf (measure (\<lambda>(items, fn, sched, p). (length items - pl_i p) + length (pl_waiting p)))"
    by simp
next
  fix items :: "'a list" and fn :: "nat \<Rightarrow> 'a \<Rightarrow> 'r" and sched :: "nat list"
    and p :: "'r pool" and k idx p1
  assume ne: "pl_waiting p \<noteq> []"
    and k: "k = (case sched of [] \<Rightarrow> 0 | c # _ \<Rightarrow> c mod length (pl_waiting p))"
    and p1: "p1 = p\<lparr>pl_results := pl_results p @ [fn idx (items ! idx)],
                   pl_waiting := take k (pl_waiting p) @ drop (Suc k) (pl_waiting p)\<rparr>"
  from ne k have "k < length (pl_waiting p)"
    by (cases sched) simp_all
  then have "length (pl_waiting p1) + 1 = length (pl_waiting p)"
    using p1 by simp
  moreover have "pl_i p1 = pl_i p"
    using p1 by simp
  ultimately
  show "((items, fn, tl sched, worker_take (length items) p1), (items, fn, sched, p))
          \<in> measure (\<lambda>(items, fn, sched, p). (length items - pl_i p) + length (pl_waiting p))"
    by (auto simp: worker_take_def Let_def)
qed

declare pool_loop.simps [simp del]

text \<open>
  \<^verbatim>\<open>const workers = Array.from({ length: Math.min(size, items.length) }, ...);\<close>
  \<^verbatim>\<open>await Promise.all(workers); return results;\<close>
\<close>

definition runPool :: "'a list \<Rightarrow> jsnum \<Rightarrow> (nat \<Rightarrow> 'a \<Rightarrow> 'r) \<Rightarrow> nat list \<Rightarrow> 'r pool" where
  "runPool items sz fn sched =
     pool_loop items fn sched
       (pool_start (length items) (to_length (js_min sz (Num (int (length items))))))"

section \<open>Reports, the key-value store and the trace of effects\<close>

record ping_totals =
  t_total :: nat
  t_batchStart :: jsnum
  t_batchEnd :: jsnum
  t_batchCount :: nat
  t_ok :: nat
  t_fail :: nat

record done_report =
  r_dryRun :: bool
  r_method :: string
  r_siteName :: string
  r_siteUrl :: string
  r_feedUrl :: "string option"
  r_totals :: ping_totals
  r_summary :: "ping_result list"
  r_nextCursor :: "jsnum option"
  r_subrequestBudget :: jsnum
  r_concurrencyUsed :: jsnum

text \<open>
  The exceptions the worker does not catch where they arise: the \<^verbatim>\<open>SyntaxError\<close> of
  \<^verbatim>\<open>JSON.parse\<close> (and of a read of the store as JSON) on a text that is no JSON, and the
  \<^verbatim>\<open>TypeError\<close> of a property read on \<^verbatim>\<open>null\<close> or of a call of what is no function.
\<close>

datatype js_error = TypeError | SyntaxError

text \<open>
  What a call of doPing ends with. It returns a DoPingResult,
  \<^verbatim>\<open>{ status: "skipped", reason }\<close> or the full report with status "done", or it throws.
\<close>

datatype do_ping_result =
  is_Skipped: Skipped (reason: string)
| is_Done: Done (report: done_report)
| is_Threw: Threw (thrown: js_error)

text \<open>
  The values kept in the store. \<^verbatim>\<open>JSON.stringify\<close> is not spelled out: a stored JSON
  document is kept as the value it encodes. \<open>Doc time latest result\<close> is
  \<^verbatim>\<open>{ time, latest, result }\<close>, whose result is a report (written by the handlers) or
  \<^verbatim>\<open>{ siteName, siteUrl, feedUrl, summary }\<close> (written by doPing). \<open>StrArray\<close> is the
  JSON text of an array. A text that is neither comes in two kinds, by what a read as JSON
  (\<^verbatim>\<open>get(key, "json")\<close>) makes of it: \<open>Unparsable s\<close> is a text that is no JSON, on
  which that read throws; \<open>Text s\<close> is a text that reads as a JSON value that is no
  array (the decimal clock reads as a number). The worker reads as JSON the endpoint
  list, the two result keys and \<^verbatim>\<open>xmlrpc:last-request\<close>; the texts it writes itself
  (the clock under \<^verbatim>\<open>xmlrpc:last-ping\<close>, the change id under \<^verbatim>\<open>xmlrpc:last-seen\<close>) are
  kept as \<open>Text\<close> and are read as texts only.
\<close>

datatype stored_body =
  Report do_ping_result
| RunSummary string string "string option" "ping_result list"

datatype kv_value =
  Text string
| Unparsable string
| StrArray "string list"
| Doc nat "string option" stored_body

text \<open>An entry is a value with its \<^verbatim>\<open>expirationTtl\<close> in seconds, if any; an expired entry is absent.\<close>

type_synonym kv_store = "string \<Rightarrow> (kv_value \<times> nat option) option"

text \<open>The effects of an invocation, in the order they happen.\<close>

datatype event =
  KvGet string
| KvPut string kv_value "nat option"
| ApiCall string
| Ping string string

record world =
  kv :: kv_store
  events :: "event list"

definition kv_get :: "string \<Rightarrow> world \<Rightarrow> kv_value option \<times> world" where
  "kv_get k w = (map_option fst (kv w k), w\<lparr>events := events w @ [KvGet k]\<rparr>)"

definition kv_put :: "string \<Rightarrow> kv_value \<Rightarrow> nat option \<Rightarrow> world \<Rightarrow> world" where
  "kv_put k v ttl w = w\<lparr>kv := (kv w)(k \<mapsto> (v, ttl)), events := events w @ [KvPut k v ttl]\<rparr>"

text \<open>
  \<^verbatim>\<open>if (rl)\<close> on what \<^verbatim>\<open>get(key)\<close> returns: \<^verbatim>\<open>null\<close> and the empty text are falsy;
  the text of a JSON document is never empty.
\<close>

fun text_truthy :: "kv_value option \<Rightarrow> bool" where
  "text_truthy None = False"
| "text_truthy (Some (Text s)) = (s \<noteq> [])"
| "text_truthy (Some (Unparsable s)) = (s \<noteq> [])"
| "text_truthy (Some _) = True"

text \<open>
  \<^verbatim>\<open>lastSeen === latest.id\<close> on what \<^verbatim>\<open>get(key)\<close> returns: the stored text is the id.
  The text of a JSON array or document is not taken to be an id.
\<close>

fun text_is :: "kv_value option \<Rightarrow> string \<Rightarrow> bool" where
  "text_is (Some (Text s)) i = (s = i)"
| "text_is (Some (Unparsable s)) i = (s = i)"
| "text_is _ i = False"

text \<open>
  \<^verbatim>\<open>await env.XMLRPC_PING_KV.get("xmlrpc:endpoints", "json")\<close> throws on a stored text that
  is no JSON.
\<close>

fun json_read_throws :: "kv_value option \<Rightarrow> bool" where
  "json_read_throws (Some (Unparsable s)) = True"
| "json_read_throws _ = False"

text \<open>\<^verbatim>\<open>let endpoints = []; if (Array.isArray(kvList)) endpoints = kvList;\<close>\<close>

fun kv_array :: "kv_value option \<Rightarrow> string list" where
  "kv_array (Some (StrArray xs)) = xs"
| "kv_array _ = []"

text \<open>\<^verbatim>\<open>String(Date.now())\<close>: the decimal text of the clock.\<close>

fun decimal :: "nat \<Rightarrow> string" where
  "decimal n =
     (if n < 10 then [char_of (48 + n)]
      else decimal (n div 10) @ [char_of (48 + n mod 10)])"

declare decimal.simps [simp del]

definition HOUR :: nat where
  "HOUR = 60 * 60"

definition RL_KEY :: string where
  "RL_KEY = ''xmlrpc:last-ping''"

definition LAST_KEY :: string where
  "LAST_KEY = ''xmlrpc:last-seen''"

definition minimal_endpoints :: "string list" where
  "minimal_endpoints =
     [''https://rpc.pingomatic.com/'', ''https://blogsearch.google.com/ping/RPC2'',
      ''https://rpc.twingly.com/'', ''https://ping.fc2.com/'', ''https://ping.feedburner.com'',
      ''http://ping.blo.gs/'', ''http://www.weblogues.com/RPC/'',
      ''http://www.blogdigger.com/RPC2'', ''http://pingoat.com/goat/RPC2'']"

section \<open>Environment, payload and options\<close>

text \<open>
  What \<^verbatim>\<open>JSON.parse\<close> makes of the text of PING_ENDPOINTS: it throws, or it returns
  an array, a string, or another value (\<^verbatim>\<open>null\<close>, a number, a boolean, an object).
\<close>

datatype json_reading =
  NotJson
| JsonArray "string list"
| JsonString string
| JsonOther

text \<open>
  RuntimeEnv. The two tuning knobs are given as the numbers \<^verbatim>\<open>Number\<close> reads from
  their texts (\<open>NaN\<close> for a text that is not numeric, \<open>None\<close> for an unset variable);
  PING_ENDPOINTS is given as what \<^verbatim>\<open>JSON.parse\<close> makes of its text (\<open>None\<close> when it is
  unset or empty). The deadline \<^verbatim>\<open>timeoutMs\<close> acts through the replies of the network
  only.
\<close>

record runtime_env =
  XMLRPC_PING_SECRET :: string
  SITE_NAME :: "string option"
  SITE_URL :: "string option"
  FEED_URL :: "string option"
  PING_ENDPOINTS :: "json_reading option"
  DETECTOR :: "string option"
  GITHUB_REPO :: "string option"
  GITHUB_BRANCH :: "string option"
  GITHUB_TOKEN :: "string option"
  CLOUDFLARE_API_TOKEN :: "string option"
  CLOUDFLARE_ACCOUNT_ID :: "string option"
  CLOUDFLARE_PAGES_PROJECT :: "string option"
  SUBREQ_BUDGET :: "jsnum option"
  PING_CONCURRENCY :: "jsnum option"

record ping_payload =
  p_siteName :: "string option"
  p_siteUrl :: "string option"
  p_feedUrl :: "string option"
  p_endpoints :: "string list option"

record ping_opts =
  o_dryRun :: "bool option"
  o_concurrency :: "jsnum option"
  o_timeoutMs :: "jsnum option"
  o_limit :: "jsnum option"
  o_verbose :: "bool option"
  o_only :: "string option"
  o_cursor :: "jsnum option"

definition no_payload :: ping_payload where
  "no_payload = \<lparr>p_siteName = None, p_siteUrl = None, p_feedUrl = None, p_endpoints = None\<rparr>"

definition no_opts :: ping_opts where
  "no_opts = \<lparr>o_dryRun = None, o_concurrency = None, o_timeoutMs = None, o_limit = None,
               o_verbose = None, o_only = None, o_cursor = None\<rparr>"

text \<open>\<^verbatim>\<open>a ?? b\<close> on optional values.\<close>

definition orElse :: "'a option \<Rightarrow> 'a \<Rightarrow> 'a" where
  "orElse a b = (case a of Some x \<Rightarrow> x | None \<Rightarrow> b)"

text \<open>The truthiness of an optional text: present and not empty.\<close>

definition truthy :: "string option \<Rightarrow> bool" where
  "truthy a = (case a of Some x \<Rightarrow> x \<noteq> [] | None \<Rightarrow> False)"

section \<open>The orchestrator (doPing)\<close>

text \<open>
  \<^verbatim>\<open>endpoints = JSON.parse(env.PING_ENDPOINTS)\<close> and the uses of \<^verbatim>\<open>endpoints\<close> in lines
  265-270. On a text that is no JSON, \<^verbatim>\<open>JSON.parse\<close> throws. A string has
  \<^verbatim>\<open>length\<close>, \<^verbatim>\<open>slice\<close> and indexing as the array of its characters has. Any
  other value has no \<^verbatim>\<open>slice\<close> to call (and \<^verbatim>\<open>null\<close> no property to read): the
  first of \<^verbatim>\<open>endpoints.slice(0, limit)\<close>, \<^verbatim>\<open>endpoints.length\<close> and
  \<^verbatim>\<open>endpoints.slice(start, end)\<close> that is reached throws, before any write and any ping.
\<close>

fun parsed_endpoints :: "json_reading \<Rightarrow> js_error + string list" where
  "parsed_endpoints NotJson = Inl SyntaxError"
| "parsed_endpoints (JsonArray ys) = Inr ys"
| "parsed_endpoints (JsonString t) = Inr (map (\<lambda>c. [c]) t)"
| "parsed_endpoints JsonOther = Inl TypeError"

text \<open>
  Lines 259-265, given what the read of \<^verbatim>\<open>xmlrpc:endpoints\<close> found: the read throws on a
  text that is no JSON; else the list of the store if it is a non-empty array, else the
  list of the payload, else the one of the environment, else the built-in one; then the
  limit.
\<close>

definition resolve_endpoints :: "kv_value option \<Rightarrow> ping_payload \<Rightarrow> runtime_env \<Rightarrow> jsnum
    \<Rightarrow> js_error + string list" where
  "resolve_endpoints kvList payload env limit =
     (if json_read_throws kvList then Inl SyntaxError
      else
        let e0 = kv_array kvList;
            e1 = (if e0 = []
                  then (case p_endpoints payload of
                          Some xs \<Rightarrow> Inr xs
                        | None \<Rightarrow> (case PING_ENDPOINTS env of
                                     Some t \<Rightarrow> parsed_endpoints t
                                   | None \<Rightarrow> Inr minimal_endpoints))
                  else Inr e0)
        in map_sum id (apply_limit limit) e1)"

text \<open>
  Lines 331-332:
  \<^verbatim>\<open>if (only === "fail") summary = summary.filter((r) => !r.ok);\<close>
  \<^verbatim>\<open>if (only === "success") summary = summary.filter((r) => r.ok);\<close>
\<close>

definition apply_only :: "string \<Rightarrow> ping_result list \<Rightarrow> ping_result list" where
  "apply_only only summary0 =
     (let s1 = (if only = ''fail'' then filter (\<lambda>r. \<not> ok r) summary0 else summary0)
      in if only = ''success'' then filter ok s1 else s1)"

text \<open>
  doPing, in the order of the source. The network is given by the reply to the call for
  the i-th URL of the batch, the completion order of the calls by the schedule, the
  clock by \<open>now\<close>. An exception of the resolution of the endpoint list leaves doPing: the
  run ends there, with the world as it is after the read of \<^verbatim>\<open>xmlrpc:endpoints\<close>.
  Failures of the store itself are not modelled.
\<close>

definition doPing :: "runtime_env \<Rightarrow> ping_payload \<Rightarrow> ping_opts \<Rightarrow> (nat \<Rightarrow> string \<Rightarrow> net_reply)
    \<Rightarrow> nat list \<Rightarrow> nat \<Rightarrow> world \<Rightarrow> do_ping_result \<times> world" where
  "doPing env payload opts net sched now w =
     (let dryRun = orElse (o_dryRun opts) False;
          concurrency = orElse (o_concurrency opts)
            (js_max (Num 1) (js_min (orElse (PING_CONCURRENCY env) (Num 6)) (Num 10)));
          limit = orElse (o_limit opts) (Num 0);
          verbose = orElse (o_verbose opts) False;
          only = orElse (o_only opts) ''all'';
          cursor = orElse (o_cursor opts) (Num 0);
          budget = SUBREQ_BUDGET_of (SUBREQ_BUDGET env);
          max_concurrency = MAX_CONCURRENCY_of concurrency;
          (rl, w1) = (if dryRun then (None, w) else kv_get RL_KEY w)
      in if \<not> dryRun \<and> text_truthy rl then (Skipped ''rate-limited (<=1/hour)'', w1)
         else
           let siteName = orElse (p_siteName payload) (orElse (SITE_NAME env) ''Viorel Mocanu'');
               siteUrl = orElse (p_siteUrl payload)
                 (orElse (SITE_URL env) ''https://www.viorelmocanu.ro'');
               feedUrl = (case p_feedUrl payload of Some f \<Rightarrow> Some f | None \<Rightarrow> FEED_URL env);
               (kvList, w2) = kv_get ''xmlrpc:endpoints'' w1
           in case resolve_endpoints kvList payload env limit of
                Inl e \<Rightarrow> (Threw e, w2)
              | Inr endpoints \<Rightarrow>
                  let p = plan endpoints budget cursor;
                      batch = bp_batch p;
                      method = (if truthy feedUrl then ''weblogUpdates.extendedPing''
                                else ''weblogUpdates.ping'');
                      params = (case feedUrl of
                                  Some f \<Rightarrow> if f \<noteq> [] then [siteName, siteUrl, f] else [siteName, siteUrl]
                                | None \<Rightarrow> [siteName, siteUrl]);
                      bodyXml = xmlRpc method params;
                      w3 = (if dryRun then w2
                            else kv_put RL_KEY (Text (decimal now)) (Some HOUR) w2);
                      pl = runPool batch max_concurrency
                             (\<lambda>i u. pingWithTimeout verbose u (net i u)) sched;
                      w4 = w3\<lparr>events := events w3 @ map (\<lambda>i. Ping (batch ! i) bodyXml) (pl_started pl)\<rparr>;
                      summary = apply_only only (pl_results pl);
                      totals = \<lparr>t_total = length endpoints, t_batchStart = bp_start p,
                                t_batchEnd = bp_end p, t_batchCount = length batch,
                                t_ok = length (filter ok summary),
                                t_fail = length (filter (\<lambda>r. \<not> ok r) summary)\<rparr>;
                      w5 = (if dryRun then w4
                            else kv_put ''xmlrpc:last-result''
                                   (Doc now None (RunSummary siteName siteUrl feedUrl summary))
                                   (Some (7 * 24 * 3600)) w4)
                  in (Done \<lparr>r_dryRun = dryRun, r_method = method, r_siteName = siteName,
                             r_siteUrl = siteUrl, r_feedUrl = feedUrl, r_totals = totals,
                             r_summary = summary, r_nextCursor = bp_nextCursor p,
                             r_subrequestBudget = budget, r_concurrencyUsed = max_concurrency\<rparr>, w5))"

section \<open>The manual trigger (fetch)\<close>

text \<open>
  The request as the handler reads it: method, path, the authorization header, the
  query parameters and the body as safeJson returns it. \<open>q_limit\<close> and \<open>q_cursor\<close> are
  \<^verbatim>\<open>Number\<close> of the parameter, \<open>None\<close> when it is absent or empty. \<open>rq_body\<close> is
  \<open>None\<close> for a body that is the JSON value \<^verbatim>\<open>null\<close>, which safeJson returns as it is;
  a body that does not parse is \<^verbatim>\<open>{}\<close>, and a JSON value that is neither \<^verbatim>\<open>null\<close>
  nor an object has none of the properties read, as \<^verbatim>\<open>{}\<close>. \<open>rq_body_cursor\<close> is
  \<^verbatim>\<open>body.cursor\<close> when it is a number.
\<close>

record request =
  rq_method :: string
  rq_pathname :: string
  rq_authorization :: "string option"
  q_dry :: "string option"
  q_verbose :: "string option"
  q_only :: "string option"
  q_limit :: "jsnum option"
  q_cursor :: "jsnum option"
  q_format :: "string option"
  rq_body :: "ping_payload option"
  rq_body_cursor :: "jsnum option"

text \<open>
  The responses; the rendering of a body (HTML, CSV, NDJSON, JSON) is not spelled out.
  \<open>Uncaught e\<close> is an exception that leaves the handler: no response is built, the
  platform answers with its error page.
\<close>

datatype response =
  MethodNotAllowed
| Unauthorized
| HealthJson
| HealthHtml
| Csv "ping_result list"
| Ndjson "ping_result list"
| Json do_ping_result
| Uncaught js_error

text \<open>
  readHealth: six reads of the store, all started together. Four of them read as JSON
  and throw on a stored text that is no JSON; the exception leaves the handler.
\<close>

definition health_throws :: "world \<Rightarrow> bool" where
  "health_throws w =
     list_ex (\<lambda>k. json_read_throws (map_option fst (kv w k)))
       [''xmlrpc:endpoints'', ''xmlrpc:last-result'', ''xmlrpc:last-dry'',
        ''xmlrpc:last-request'']"

definition readHealth :: "world \<Rightarrow> world" where
  "readHealth w =
     w\<lparr>events := events w @ map KvGet [''xmlrpc:last-ping'', ''xmlrpc:last-seen'',
          ''xmlrpc:endpoints'', ''xmlrpc:last-result'', ''xmlrpc:last-dry'',
          ''xmlrpc:last-request'']\<rparr>"

text \<open>\<^verbatim>\<open>res.summary ?? []\<close>\<close>

fun summary_of :: "do_ping_result \<Rightarrow> ping_result list" where
  "summary_of (Done r) = r_summary r"
| "summary_of _ = []"

text \<open>
  fetch. \<^verbatim>\<open>typeof body.cursor\<close> on the body \<^verbatim>\<open>null\<close> throws a \<^verbatim>\<open>TypeError\<close>, before
  the call of doPing; this exception, those of doPing and those of readHealth are not
  caught.
\<close>

definition fetch :: "runtime_env \<Rightarrow> request \<Rightarrow> (nat \<Rightarrow> string \<Rightarrow> net_reply)
    \<Rightarrow> nat list \<Rightarrow> nat \<Rightarrow> world \<Rightarrow> response \<times> world" where
  "fetch env rq net sched now w =
     (let dryRun = (q_dry rq = Some ''1'');
          verbose = (q_verbose rq = Some ''1'');
          only = (if truthy (q_only rq) then orElse (q_only rq) ''all'' else ''all'');
          limit = orElse (q_limit rq) (Num 0);
          format = q_format rq
      in if rq_method rq = ''GET'' \<and> rq_pathname rq = ''/health''
         then (if health_throws w then Uncaught SyntaxError
               else if format = Some ''json'' then HealthJson else HealthHtml, readHealth w)
         else if rq_method rq \<noteq> ''POST'' then (MethodNotAllowed, w)
         else if \<not> truthy (rq_authorization rq)
                 \<or> rq_authorization rq \<noteq> Some (''Bearer '' @ XMLRPC_PING_SECRET env)
         then (Unauthorized, w)
         else
           case rq_body rq of
             None \<Rightarrow> (Uncaught TypeError, w)
           | Some body \<Rightarrow>
               let cursor = (case rq_body_cursor rq of
                               Some c \<Rightarrow> c
                             | None \<Rightarrow> orElse (q_cursor rq) (Num 0));
                   (res, w1) = doPing env body
                      \<lparr>o_dryRun = Some dryRun, o_concurrency = None, o_timeoutMs = None,
                       o_limit = Some limit, o_verbose = Some verbose, o_only = Some only,
                       o_cursor = Some cursor\<rparr> net sched now w
               in if is_Threw res then (Uncaught (thrown res), w1)
                  else
                    let w2 = (if \<not> dryRun
                              then kv_put ''xmlrpc:last-result'' (Doc now None (Report res))
                                     (Some (7 * 24 * 3600)) w1
                              else kv_put ''xmlrpc:last-dry'' (Doc now None (Report res))
                                     (Some (24 * 3600)) w1)
                    in (if format = Some ''csv'' then Csv (summary_of res)
                        else if format = Some ''ndjson'' then Ndjson (summary_of res)
                        else Json res, w2))"

section \<open>The detectors and the cron trigger (scheduled)\<close>

text \<open>
  What the call to the deploy API ends with: an exception (of \<^verbatim>\<open>fetch\<close> or of
  \<^verbatim>\<open>r.json()\<close>), or a response with its \<^verbatim>\<open>ok\<close> flag and the id found in its body
  (\<^verbatim>\<open>commit.sha\<close>, or the id of the first deployment), if any.
\<close>

datatype api_reply = ApiThrows | ApiResponse bool "string option"

text \<open>The result of a detector: \<open>None\<close> when it throws, else \<^verbatim>\<open>{ id }\<close> or \<^verbatim>\<open>null\<close>.\<close>

definition api_result :: "api_reply \<Rightarrow> string option option" where
  "api_result api =
     (case api of
        ApiThrows \<Rightarrow> None
      | ApiResponse okv idv \<Rightarrow>
          if \<not> okv then Some None
          else if truthy idv then Some idv else Some None)"

definition latestGithubCommit :: "runtime_env \<Rightarrow> api_reply \<Rightarrow> world \<Rightarrow> string option option \<times> world" where
  "latestGithubCommit env api w =
     (if \<not> truthy (GITHUB_REPO env) then (Some None, w)
      else
        let repo = orElse (GITHUB_REPO env) [];
            branch = (if truthy (GITHUB_BRANCH env) then orElse (GITHUB_BRANCH env) [] else ''main'')
        in (api_result api,
            w\<lparr>events := events w
                 @ [ApiCall (''https://api.github.com/repos/'' @ repo @ ''/branches/'' @ branch)]\<rparr>))"

definition latestCloudflareDeploy :: "runtime_env \<Rightarrow> api_reply \<Rightarrow> world \<Rightarrow> string option option \<times> world" where
  "latestCloudflareDeploy env api w =
     (if \<not> truthy (CLOUDFLARE_API_TOKEN env) \<or> \<not> truthy (CLOUDFLARE_ACCOUNT_ID env)
         \<or> \<not> truthy (CLOUDFLARE_PAGES_PROJECT env)
      then (Some None, w)
      else
        (api_result api,
         w\<lparr>events := events w
              @ [ApiCall (''https://api.cloudflare.com/client/v4/accounts/''
                   @ orElse (CLOUDFLARE_ACCOUNT_ID env) [] @ ''/pages/projects/''
                   @ orElse (CLOUDFLARE_PAGES_PROJECT env) [] @ ''/deployments?per_page=1'')]\<rparr>))"

text \<open>
  \<^verbatim>\<open>const detector = (env.DETECTOR || "github");\<close>
  \<^verbatim>\<open>const latest = detector === "cloudflare" ? await latestCloudflareDeploy(env) : await latestGithubCommit(env);\<close>
\<close>

definition detect :: "runtime_env \<Rightarrow> api_reply \<Rightarrow> world \<Rightarrow> string option option \<times> world" where
  "detect env api w =
     (let detector = (if truthy (DETECTOR env) then orElse (DETECTOR env) [] else ''github'')
      in if detector = ''cloudflare'' then latestCloudflareDeploy env api w
         else latestGithubCommit env api w)"

text \<open>
  scheduled: the detector, the last-seen check, the rate-limit check, then the run and
  the three writes. An exception of the detector or of doPing is caught and ends the
  invocation.
\<close>

definition scheduled :: "runtime_env \<Rightarrow> api_reply \<Rightarrow> (nat \<Rightarrow> string \<Rightarrow> net_reply)
    \<Rightarrow> nat list \<Rightarrow> nat \<Rightarrow> world \<Rightarrow> world" where
  "scheduled env api net sched now w =
     (let (latest, w0) = detect env api w
      in case latest of
           None \<Rightarrow> w0
         | Some l \<Rightarrow>
             if \<not> truthy l then w0
             else
               let latest_id = orElse l [];
                   (lastSeen, w1) = kv_get LAST_KEY w0
               in if text_is lastSeen latest_id then w1
                  else
                    let (rl, w2) = kv_get RL_KEY w1
                    in if text_truthy rl then w2
                       else
                         let (result, w3) = doPing env no_payload no_opts net sched now w2
                         in if is_Threw result then w3
                            else
                              let w4 = kv_put LAST_KEY (Text latest_id) None w3;
                                  w5 = kv_put RL_KEY (Text (decimal now)) (Some HOUR) w4
                              in kv_put ''xmlrpc:last-result''
                                   (Doc now (Some latest_id) (Report result))
                                   (Some (7 * 24 * 3600)) w5)"

section \<open>The parts of a run of doPing, by name\<close>

text \<open>
  The values doPing computes on the way, as functions of its inputs, to state what a
  run does: the dry flag, the outcome of the rate-limit check, the effective
  concurrency, the resolution of the endpoint list (the exception it throws, if any,
  and the list, taken as empty when it throws), the plan, the request body and the pool.
\<close>

definition is_dry :: "ping_opts \<Rightarrow> bool" where
  "is_dry opts = orElse (o_dryRun opts) False"

definition rate_limited :: "world \<Rightarrow> bool" where
  "rate_limited w = text_truthy (map_option fst (kv w RL_KEY))"

definition run_concurrency :: "runtime_env \<Rightarrow> ping_opts \<Rightarrow> jsnum" where
  "run_concurrency env opts =
     MAX_CONCURRENCY_of (orElse (o_concurrency opts)
       (js_max (Num 1) (js_min (orElse (PING_CONCURRENCY env) (Num 6)) (Num 10))))"

definition run_resolution :: "runtime_env \<Rightarrow> ping_payload \<Rightarrow> ping_opts \<Rightarrow> world
    \<Rightarrow> js_error + string list" where
  "run_resolution env payload opts w =
     resolve_endpoints (map_option fst (kv w ''xmlrpc:endpoints'')) payload env
       (orElse (o_limit opts) (Num 0))"

definition run_throws :: "runtime_env \<Rightarrow> ping_payload \<Rightarrow> ping_opts \<Rightarrow> world \<Rightarrow> js_error option" where
  "run_throws env payload opts w =
     (case run_resolution env payload opts w of Inl e \<Rightarrow> Some e | Inr eps \<Rightarrow> None)"

definition run_endpoints :: "runtime_env \<Rightarrow> ping_payload \<Rightarrow> ping_opts \<Rightarrow> world \<Rightarrow> string list" where
  "run_endpoints env payload opts w =
     (case run_resolution env payload opts w of Inl e \<Rightarrow> [] | Inr eps \<Rightarrow> eps)"

definition run_plan :: "runtime_env \<Rightarrow> ping_payload \<Rightarrow> ping_opts \<Rightarrow> world \<Rightarrow> string batch_plan" where
  "run_plan env payload opts w =
     plan (run_endpoints env payload opts w) (SUBREQ_BUDGET_of (SUBREQ_BUDGET env))
       (orElse (o_cursor opts) (Num 0))"

definition run_siteName :: "runtime_env \<Rightarrow> ping_payload \<Rightarrow> string" where
  "run_siteName env payload = orElse (p_siteName payload) (orElse (SITE_NAME env) ''Viorel Mocanu'')"

definition run_siteUrl :: "runtime_env \<Rightarrow> ping_payload \<Rightarrow> string" where
  "run_siteUrl env payload =
     orElse (p_siteUrl payload) (orElse (SITE_URL env) ''https://www.viorelmocanu.ro'')"

definition run_feedUrl :: "runtime_env \<Rightarrow> ping_payload \<Rightarrow> string option" where
  "run_feedUrl env payload = (case p_feedUrl payload of Some f \<Rightarrow> Some f | None \<Rightarrow> FEED_URL env)"

definition run_method :: "runtime_env \<Rightarrow> ping_payload \<Rightarrow> string" where
  "run_method env payload =
     (if truthy (run_feedUrl env payload) then ''weblogUpdates.extendedPing''
      else ''weblogUpdates.ping'')"

definition run_body :: "runtime_env \<Rightarrow> ping_payload \<Rightarrow> string" where
  "run_body env payload =
     xmlRpc (run_method env payload)
       (case run_feedUrl env payload of
          Some f \<Rightarrow> if f \<noteq> [] then [run_siteName env payload, run_siteUrl env payload, f]
                    else [run_siteName env payload, run_siteUrl env payload]
        | None \<Rightarrow> [run_siteName env payload, run_siteUrl env payload])"

definition run_pool :: "runtime_env \<Rightarrow> ping_payload \<Rightarrow> ping_opts \<Rightarrow> (nat \<Rightarrow> string \<Rightarrow> net_reply)
    \<Rightarrow> nat list \<Rightarrow> world \<Rightarrow> ping_result pool" where
  "run_pool env payload opts net sched w =
     runPool (bp_batch (run_plan env payload opts w)) (run_concurrency env opts)
       (\<lambda>i u. pingWithTimeout (orElse (o_verbose opts) False) u (net i u)) sched"

definition run_summary :: "runtime_env \<Rightarrow> ping_payload \<Rightarrow> ping_opts \<Rightarrow> (nat \<Rightarrow> string \<Rightarrow> net_reply)
    \<Rightarrow> nat list \<Rightarrow> world \<Rightarrow> ping_result list" where
  "run_summary env payload opts net sched w =
     apply_only (orElse (o_only opts) ''all'') (pl_results (run_pool env payload opts net sched w))"

definition run_pings :: "runtime_env \<Rightarrow> ping_payload \<Rightarrow> ping_opts \<Rightarrow> (nat \<Rightarrow> string \<Rightarrow> net_reply)
    \<Rightarrow> nat list \<Rightarrow> world \<Rightarrow> event list" where
  "run_pings env payload opts net sched w =
     map (\<lambda>i. Ping (bp_batch (run_plan env payload opts w) ! i) (run_body env payload))
       (pl_started (run_pool env payload opts net sched w))"

definition run_report :: "runtime_env \<Rightarrow> ping_payload \<Rightarrow> ping_opts \<Rightarrow> (nat \<Rightarrow> string \<Rightarrow> net_reply)
    \<Rightarrow> nat list \<Rightarrow> world \<Rightarrow> done_report" where
  "run_report env payload opts net sched w =
     \<lparr>r_dryRun = is_dry opts, r_method = run_method env payload,
      r_siteName = run_siteName env payload, r_siteUrl = run_siteUrl env payload,
      r_feedUrl = run_feedUrl env payload,
      r_totals =
        \<lparr>t_total = length (run_endpoints env payload opts w),
         t_batchStart = bp_start (run_plan env payload opts w),
         t_batchEnd = bp_end (run_plan env payload opts w),
         t_batchCount = length (bp_batch (run_plan env payload opts w)),
         t_ok = length (filter ok (run_summary env payload opts net sched w)),
         t_fail = length (filter (\<lambda>r. \<not> ok r) (run_summary env payload opts net sched w))\<rparr>,
      r_summary = run_summary env payload opts net sched w,
      r_nextCursor = bp_nextCursor (run_plan env payload opts w),
      r_subrequestBudget = SUBREQ_BUDGET_of (SUBREQ_BUDGET env),
      r_concurrencyUsed = run_concurrency env opts\<rparr>"

text \<open>
  The options the manual trigger passes to doPing, and the requests that reach doPing:
  a POST whose authorization header is the bearer token of the environment.
\<close>

definition fetch_opts :: "request \<Rightarrow> ping_opts" where
  "fetch_opts rq =
     \<lparr>o_dryRun = Some (q_dry rq = Some ''1''), o_concurrency = None, o_timeoutMs = None,
      o_limit = Some (orElse (q_limit rq) (Num 0)),
      o_verbose = Some (q_verbose rq = Some ''1''),
      o_only = Some (if truthy (q_only rq) then orElse (q_only rq) ''all'' else ''all''),
      o_cursor = Some (case rq_body_cursor rq of
                         Some c \<Rightarrow> c
                       | None \<Rightarrow> orElse (q_cursor rq) (Num 0))\<rparr>"

definition authorised_post :: "runtime_env \<Rightarrow> request \<Rightarrow> bool" where
  "authorised_post env rq =
     (rq_method rq = ''POST''
      \<and> rq_authorization rq = Some (''Bearer '' @ XMLRPC_PING_SECRET env))"

section \<open>Observations on a trace\<close>

text \<open>The URLs pinged, the keys written and the keys read, in order.\<close>

fun ping_urls :: "event list \<Rightarrow> string list" where
  "ping_urls [] = []"
| "ping_urls (Ping u _ # es) = u # ping_urls es"
| "ping_urls (_ # es) = ping_urls es"

fun put_keys :: "event list \<Rightarrow> string list" where
  "put_keys [] = []"
| "put_keys (KvPut k _ _ # es) = k # put_keys es"
| "put_keys (_ # es) = put_keys es"

fun get_keys :: "event list \<Rightarrow> string list" where
  "get_keys [] = []"
| "get_keys (KvGet k # es) = k # get_keys es"
| "get_keys (_ # es) = get_keys es"

text \<open>The events an invocation adds to the trace it starts from.\<close>

definition new_events :: "world \<Rightarrow> world \<Rightarrow> event list" where
  "new_events w w' = drop (length (events w)) (events w')"

text \<open>
  No ping is dispatched before the first write of the rate-limit record with its
  one-hour expiry.
\<close>

fun lock_before_pings :: "event list \<Rightarrow> bool" where
  "lock_before_pings [] = True"
| "lock_before_pings (KvPut k v t # es) =
     (if k = RL_KEY \<and> t = Some HOUR then True else lock_before_pings es)"
| "lock_before_pings (Ping u b # es) = False"
| "lock_before_pings (_ # es) = lock_before_pings es"

section \<open>Concrete inputs\<close>

text \<open>An environment with the secret only: every tuning knob and site variable unset.\<close>

definition default_env :: runtime_env where
  "default_env =
     \<lparr>XMLRPC_PING_SECRET = ''secret'', SITE_NAME = None, SITE_URL = None, FEED_URL = None,
      PING_ENDPOINTS = None, DETECTOR = None, GITHUB_REPO = None, GITHUB_BRANCH = None,
      GITHUB_TOKEN = None, CLOUDFLARE_API_TOKEN = None, CLOUDFLARE_ACCOUNT_ID = None,
      CLOUDFLARE_PAGES_PROJECT = None, SUBREQ_BUDGET = None, PING_CONCURRENCY = None\<rparr>"

text \<open>\<^verbatim>\<open>SUBREQ_BUDGET = "abc"\<close> and \<^verbatim>\<open>PING_CONCURRENCY = "abc"\<close>: \<^verbatim>\<open>Number("abc")\<close> is \<^verbatim>\<open>NaN\<close>.\<close>

definition bad_budget_env :: runtime_env where
  "bad_budget_env = default_env\<lparr>SUBREQ_BUDGET := Some NaN\<rparr>"

definition bad_concurrency_env :: runtime_env where
  "bad_concurrency_env = default_env\<lparr>PING_CONCURRENCY := Some NaN\<rparr>"

definition github_env :: runtime_env where
  "github_env = default_env\<lparr>GITHUB_REPO := Some ''owner/site''\<rparr>"

definition ten_endpoints :: "string list" where
  "ten_endpoints =
     [''http://e0.test/'', ''http://e1.test/'', ''http://e2.test/'', ''http://e3.test/'',
      ''http://e4.test/'', ''http://e5.test/'', ''http://e6.test/'', ''http://e7.test/'',
      ''http://e8.test/'', ''http://e9.test/'']"

definition ten_payload :: ping_payload where
  "ten_payload = no_payload\<lparr>p_endpoints := Some ten_endpoints\<rparr>"

text \<open>A network on which the first three calls of a batch get status 500 and the others 200.\<close>

definition net_first3_fail :: "nat \<Rightarrow> string \<Rightarrow> net_reply" where
  "net_first3_fail i u = (if i < 3 then Responded 500 None 20 else Responded 200 None 5)"

definition net_all_ok :: "nat \<Rightarrow> string \<Rightarrow> net_reply" where
  "net_all_ok i u = Responded 200 None 5"

definition empty_world :: world where
  "empty_world = \<lparr>kv = (\<lambda>k. None), events = []\<rparr>"

text \<open>
  A store half an hour after a real run: the rate-limit record and the last real result
  of that run (nine endpoints answered, all with 200).
\<close>

definition earlier_result :: kv_value where
  "earlier_result =
     Doc 1700000000000 None
       (RunSummary ''Viorel Mocanu'' ''https://www.viorelmocanu.ro'' None
          (map (\<lambda>u. \<lparr>url = u, ok = True, status = 200, error = None, ms = Some 5,
                      bodySnippet = None\<rparr>) minimal_endpoints))"

definition locked_world :: world where
  "locked_world =
     \<lparr>kv = (\<lambda>k. if k = RL_KEY then Some (Text ''1700000000000'', Some HOUR)
                else if k = ''xmlrpc:last-result'' then Some (earlier_result, Some (7 * 24 * 3600))
                else None),
      events = []\<rparr>"

text \<open>A store whose last-seen marker is the commit \<^verbatim>\<open>c0ffee\<close>.\<close>

definition seen_world :: world where
  "seen_world =
     \<lparr>kv = (\<lambda>k. if k = LAST_KEY then Some (Text ''c0ffee'', None) else None), events = []\<rparr>"

definition only_fail_opts :: ping_opts where
  "only_fail_opts = no_opts\<lparr>o_dryRun := Some True, o_only := Some ''fail''\<rparr>"

definition cursor9_opts :: ping_opts where
  "cursor9_opts = no_opts\<lparr>o_cursor := Some (Num 9)\<rparr>"

definition cursor12_opts :: ping_opts where
  "cursor12_opts = no_opts\<lparr>o_cursor := Some (Num 12)\<rparr>"

text \<open>An authorised POST to \<^verbatim>\<open>/\<close> with an empty JSON body and no query parameter.\<close>

definition post_request :: request where
  "post_request =
     \<lparr>rq_method = ''POST'', rq_pathname = ''/'', rq_authorization = Some ''Bearer secret'',
      q_dry = None, q_verbose = None, q_only = None, q_limit = None, q_cursor = None,
      q_format = None, rq_body = Some no_payload, rq_body_cursor = None\<rparr>"

definition dry_request :: request where
  "dry_request = post_request\<lparr>q_dry := Some ''1''\<rparr>"

text \<open>The same dry request with the body \<^verbatim>\<open>null\<close>.\<close>

definition null_dry_request :: request where
  "null_dry_request = dry_request\<lparr>rq_body := None\<rparr>"

text \<open>\<^verbatim>\<open>PING_ENDPOINTS = "https://rpc.pingomatic.com/"\<close>: a URL, not the JSON text of an array.\<close>

definition bad_endpoints_env :: runtime_env where
  "bad_endpoints_env = default_env\<lparr>PING_ENDPOINTS := Some NotJson\<rparr>"

section \<open>Properties of the batch planner\<close>

lemma js_slice_num:
  assumes "0 \<le> s" "0 \<le> e"
  shows "js_slice xs (Num s) (Num e) = take (nat e - nat s) (drop (nat s) xs)"
proof -
  have "rel_index (length xs) (Num s) = min (nat s) (length xs)"
    and "rel_index (length xs) (Num e) = min (nat e) (length xs)"
    using assms by (simp_all add: rel_index_def)
  then have "js_slice xs (Num s) (Num e)
      = take (min (nat e) (length xs) - min (nat s) (length xs)) (drop (min (nat s) (length xs)) xs)"
    by (simp add: js_slice_def Let_def)
  also have "\<dots> = take (nat e - nat s) (drop (nat s) xs)"
  proof (cases "nat s \<le> length xs")
    case True
    then have "min (nat s) (length xs) = nat s" by simp
    moreover have "take (min (nat e) (length xs) - nat s) (drop (nat s) xs)
        = take (nat e - nat s) (drop (nat s) xs)"
      by (cases "nat e \<le> length xs") simp_all
    ultimately show ?thesis by simp
  next
    case False
    then show ?thesis by simp
  qed
  finally show ?thesis .
qed

lemma plan_batch_num:
  assumes "0 \<le> n" "n < int (length eps)" "1 \<le> b"
  shows "bp_batch (plan eps (Num b) (Num n)) = take (nat b) (drop (nat n) eps)"
proof -
  let ?e = "min (int (length eps)) (n + b)"
  have "bp_batch (plan eps (Num b) (Num n)) = js_slice eps (Num n) (Num ?e)"
    using assms by (simp add: plan_def Let_def)
  also have "\<dots> = take (nat ?e - nat n) (drop (nat n) eps)"
    using assms by (intro js_slice_num) auto
  also have "\<dots> = take (nat b) (drop (nat n) eps)"
  proof (cases "n + b \<le> int (length eps)")
    case True
    then have "nat ?e - nat n = nat b" using assms by simp
    then show ?thesis by simp
  next
    case False
    then have "nat ?e - nat n = length eps - nat n" by simp
    moreover have "length eps - nat n \<le> nat b" using False assms by linarith
    ultimately show ?thesis by simp
  qed
  finally show ?thesis .
qed

lemma plan_next_num:
  assumes "0 \<le> n" "1 \<le> b"
  shows "bp_nextCursor (plan eps (Num b) (Num n)) =
           (if n + b < int (length eps) then Some (Num (n + b)) else None)"
  using assms by (simp add: plan_def Let_def)

lemma clamp_budget_num:
  assumes "SUBREQ_BUDGET_of v = Num b"
  shows "1 \<le> b \<and> b \<le> 1000"
  using assms by (cases "rawBudget v") (auto simp: SUBREQ_BUDGET_of_def)

text \<open>
  The loop from a cursor inside the list: the batches are the rest of the list, cut into
  pieces of the budget, and the number of invocations is the rounded-up quotient.
\<close>

lemma drive_covers:
  assumes b: "SUBREQ_BUDGET_of v = Num b" "1 \<le> b"
  shows "0 \<le> n \<Longrightarrow> n < int (length eps) \<Longrightarrow>
           concat (map bp_batch (drive v eps (Num n))) = drop (nat n) eps
           \<and> int (length (drive v eps (Num n))) = (int (length eps) - n + b - 1) div b
           \<and> bp_nextCursor (last (drive v eps (Num n))) = None
           \<and> (\<forall>p \<in> set (butlast (drive v eps (Num n))). bp_nextCursor p \<noteq> None)"
proof (induction "nat (int (length eps) - n)" arbitrary: n rule: less_induct)
  case less
  let ?p = "plan eps (Num b) (Num n)"
  show ?case
  proof (cases "n + b < int (length eps)")
    case True
    then have nx: "bp_nextCursor ?p = Some (Num (n + b))"
      using less.prems b by (simp add: plan_next_num)
    then have d: "drive v eps (Num n) = ?p # drive v eps (Num (n + b))"
      by (subst drive.simps) (simp add: b)
    have ne: "drive v eps (Num (n + b)) \<noteq> []"
      by (subst drive.simps) (simp add: Let_def split: option.splits)
    have ih: "concat (map bp_batch (drive v eps (Num (n + b)))) = drop (nat (n + b)) eps
           \<and> int (length (drive v eps (Num (n + b)))) = (int (length eps) - (n + b) + b - 1) div b
           \<and> bp_nextCursor (last (drive v eps (Num (n + b)))) = None
           \<and> (\<forall>p \<in> set (butlast (drive v eps (Num (n + b)))). bp_nextCursor p \<noteq> None)"
      using less.prems b True by (intro less.hyps) auto
    have "take (nat b) (drop (nat n) eps) @ drop (nat (n + b)) eps = drop (nat n) eps"
    proof -
      have "nat (n + b) = nat b + nat n" using less.prems b by simp
      then have "drop (nat (n + b)) eps = drop (nat b) (drop (nat n) eps)" by simp
      then show ?thesis by (metis append_take_drop_id)
    qed
    moreover have "(int (length eps) - n + b - 1) div b = (int (length eps) - (n + b) + b - 1) div b + 1"
    proof -
      have "int (length eps) - n + b - 1 = (int (length eps) - (n + b) + b - 1) + b" by simp
      then show ?thesis using b by (metis div_add_self2 not_one_le_zero)
    qed
    ultimately show ?thesis
      using ih ne nx less.prems b by (simp add: d plan_batch_num)
  next
    case False
    then have nx: "bp_nextCursor ?p = None"
      using less.prems b by (simp add: plan_next_num)
    then have d: "drive v eps (Num n) = [?p]"
      by (subst drive.simps) (simp add: b)
    have "(int (length eps) - n + b - 1) div b = 1"
    proof -
      define x where "x = int (length eps) - n - 1"
      have x: "0 \<le> x" "x < b" using False less.prems by (auto simp: x_def)
      have e: "int (length eps) - n + b - 1 = x + b" by (simp add: x_def)
      have "(x + b) div b = x div b + 1" using x by (metis div_add_self2 less_le_not_le)
      moreover have "x div b = 0" using x by (rule div_pos_pos_trivial)
      ultimately have "(x + b) div b = 1" by simp
      then show ?thesis by (simp only: e)
    qed
    moreover have "take (nat b) (drop (nat n) eps) = drop (nat n) eps"
      using False less.prems by simp
    ultimately show ?thesis
      using nx less.prems b by (simp add: d plan_batch_num)
  qed
qed

text \<open>
  C1. For every non-empty endpoint list (after the optional limit) and every clamped
  budget B, the invocations with cursor 0, then the reported nextCursor, and so on,
  yield batches that together are the list (every endpoint in exactly one batch, in
  order); the last report and only the last has nextCursor = null; the number of
  invocations is the rounded-up quotient of the length by B, that is the k with
  (k - 1) * B < length <= k * B.
\<close>

theorem C1_cursor_loop_covers_once:
  assumes "apply_limit limit all_endpoints \<noteq> []"
    and "SUBREQ_BUDGET_of env_budget = Num B"
  shows "concat (map bp_batch (drive env_budget (apply_limit limit all_endpoints) (Num 0)))
           = apply_limit limit all_endpoints
       \<and> bp_nextCursor (last (drive env_budget (apply_limit limit all_endpoints) (Num 0))) = None
       \<and> (\<forall>p \<in> set (butlast (drive env_budget (apply_limit limit all_endpoints) (Num 0))).
            bp_nextCursor p \<noteq> None)
       \<and> int (length (drive env_budget (apply_limit limit all_endpoints) (Num 0)))
           = (int (length (apply_limit limit all_endpoints)) + B - 1) div B
       \<and> (int (length (drive env_budget (apply_limit limit all_endpoints) (Num 0))) - 1) * B
           < int (length (apply_limit limit all_endpoints))
       \<and> int (length (apply_limit limit all_endpoints))
           \<le> int (length (drive env_budget (apply_limit limit all_endpoints) (Num 0))) * B"
proof -
  let ?eps = "apply_limit limit all_endpoints"
  let ?runs = "drive env_budget ?eps (Num 0)"
  have B: "1 \<le> B" "B \<le> 1000"
    using clamp_budget_num [OF assms(2)] by simp_all
  have len: "0 < int (length ?eps)"
    using assms(1) by simp
  have cov: "concat (map bp_batch ?runs) = drop (nat 0) ?eps
           \<and> int (length ?runs) = (int (length ?eps) - 0 + B - 1) div B
           \<and> bp_nextCursor (last ?runs) = None
           \<and> (\<forall>p \<in> set (butlast ?runs). bp_nextCursor p \<noteq> None)"
    using drive_covers [OF assms(2) B(1), of 0 ?eps] len by simp
  define k where "k = (int (length ?eps) + B - 1) div B"
  have k: "int (length ?runs) = k"
    using cov by (simp add: k_def)
  define x where "x = int (length ?eps) + B - 1"
  have x: "x = k * B + x mod B"
    unfolding k_def x_def by simp
  have m: "0 \<le> x mod B" "x mod B < B"
    using B by simp_all
  have lo: "(k - 1) * B < int (length ?eps)"
  proof -
    have "k * B \<le> x" using x m by linarith
    then have "k * B - B < int (length ?eps)" by (simp add: x_def)
    then show ?thesis by (simp add: algebra_simps)
  qed
  have hi: "int (length ?eps) \<le> k * B"
  proof -
    have "x < k * B + B" using x m by linarith
    then show ?thesis by (simp add: x_def)
  qed
  from cov k lo hi show ?thesis
    by (simp add: k_def)
qed

theorem C1_cursor_loop_covers_once_witness:
  "apply_limit (Num 5) [''a'', ''b'', ''c'', ''d'', ''e'', ''f'', ''g''] \<noteq> []
   \<and> SUBREQ_BUDGET_of (Some (Num 2)) = Num 2
   \<and> concat (map bp_batch (drive (Some (Num 2))
        (apply_limit (Num 5) [''a'', ''b'', ''c'', ''d'', ''e'', ''f'', ''g'']) (Num 0)))
       = [''a'', ''b'', ''c'', ''d'', ''e'']
   \<and> length (drive (Some (Num 2))
        (apply_limit (Num 5) [''a'', ''b'', ''c'', ''d'', ''e'', ''f'', ''g'']) (Num 0)) = 3"
proof -
  have l: "apply_limit (Num 5) [''a'', ''b'', ''c'', ''d'', ''e'', ''f'', ''g'']
      = [''a'', ''b'', ''c'', ''d'', ''e'']"
    by (simp add: apply_limit_def js_slice_def rel_index_def)
  have b: "SUBREQ_BUDGET_of (Some (Num 2)) = Num 2"
    by (simp add: SUBREQ_BUDGET_of_def rawBudget_def)
  have ne: "apply_limit (Num 5) [''a'', ''b'', ''c'', ''d'', ''e'', ''f'', ''g''] \<noteq> []"
    by (simp add: l)
  from C1_cursor_loop_covers_once [OF ne b] l b show ?thesis
    by simp
qed

section \<open>Properties of the encoder\<close>

lemma replaceAll_append: "replaceAll c r (a @ b) = replaceAll c r a @ replaceAll c r b"
  by (simp add: replaceAll_def)

lemma escapeXml_append: "escapeXml (a @ b) = escapeXml a @ escapeXml b"
  by (simp add: escapeXml_def replaceAll_append)

lemma escapeXml_Nil: "escapeXml [] = []"
  by (simp add: escapeXml_def replaceAll_def)

text \<open>
  The five passes on one character give its replacement text: the texts the later
  passes insert contain no character an earlier or later pass looks for, except the
  ampersand, which is replaced first.
\<close>

lemma escapeXml_single: "escapeXml [c] = esc_char c"
  by (simp add: escapeXml_def replaceAll_def esc_char_def)

lemma escapeXml_Cons: "escapeXml (c # cs) = esc_char c @ escapeXml cs"
  using escapeXml_append [of "[c]" cs] by (simp add: escapeXml_single)

lemma escapeXml_char_level: "escapeXml s = concat (map esc_char s)"
  by (induction s) (simp_all add: escapeXml_Nil escapeXml_Cons)

lemma no_raw_esc_char: "no_raw_reserved (esc_char c @ t) = no_raw_reserved t"
  by (simp add: esc_char_def entities_def)

lemma no_raw_escapeXml: "no_raw_reserved (escapeXml s)"
  by (induction s) (simp_all add: escapeXml_Nil escapeXml_Cons no_raw_esc_char)

lemma escapeXml_amp_entity: "escapeXml ''&amp;'' = ''&amp;amp;''"
  by (simp add: escapeXml_char_level esc_char_def)

text \<open>
  C4. For every method name and every sequence of parameter strings, the output of the
  encoder is the fixed skeleton around the method name and, for each parameter in
  order, its escaped text between the parameter tags; the escaped text of a parameter
  is the concatenation of the replacement texts of its characters (a character-level
  transform) and contains no unescaped occurrence of the five reserved characters; an
  ampersand that is already part of the text \<^verbatim>\<open>&amp;\<close> is escaped again, to
  \<^verbatim>\<open>&amp;amp;\<close>, wherever it stands.
\<close>

theorem C4_params_escaped_char_level:
  "xmlRpc method params
     = xml_head @ method @ xml_mid
       @ concat (map (\<lambda>p. param_open @ escapeXml p @ param_close) params) @ xml_tail
   \<and> (\<forall>p \<in> set params. escapeXml p = concat (map esc_char p) \<and> no_raw_reserved (escapeXml p))
   \<and> escapeXml (a @ ''&amp;'' @ b) = escapeXml a @ ''&amp;amp;'' @ escapeXml b"
proof (intro conjI ballI)
  show "xmlRpc method params
     = xml_head @ method @ xml_mid
       @ concat (map (\<lambda>p. param_open @ escapeXml p @ param_close) params) @ xml_tail"
    by (simp add: xmlRpc_def)
next
  fix p
  show "escapeXml p = concat (map esc_char p)"
    by (rule escapeXml_char_level)
  show "no_raw_reserved (escapeXml p)"
    by (rule no_raw_escapeXml)
next
  show "escapeXml (a @ ''&amp;'' @ b) = escapeXml a @ ''&amp;amp;'' @ escapeXml b"
    by (simp only: escapeXml_append escapeXml_amp_entity)
qed

theorem C4_params_escaped_char_level_witness:
  "xmlRpc ''weblogUpdates.ping'' [''Tom & <Jerry>'', ''x&amp;y'']
     = xml_head @ ''weblogUpdates.ping'' @ xml_mid
       @ param_open @ ''Tom &amp; &lt;Jerry&gt;'' @ param_close
       @ param_open @ ''x&amp;amp;y'' @ param_close @ xml_tail
   \<and> no_raw_reserved (escapeXml ''Tom & <Jerry>'')
   \<and> no_raw_reserved (escapeXml ''x&amp;y'')
   \<and> escapeXml (''x'' @ ''&amp;'' @ ''y'') = ''x&amp;amp;y''"
  using C4_params_escaped_char_level
    [of "''weblogUpdates.ping''" "[''Tom & <Jerry>'', ''x&amp;y'']" "''x''" "''y''"]
  by (simp add: escapeXml_char_level esc_char_def)

section \<open>Properties of the worker pool\<close>

text \<open>The pool after the start of n workers, n at most the number of items.\<close>

lemma pool_start_eq:
  "n \<le> len \<Longrightarrow> pool_start len n
     = \<lparr>pl_i = n, pl_waiting = [0..<n], pl_started = [0..<n], pl_results = []\<rparr>"
proof (induction n)
  case 0
  then show ?case by (simp add: pool_start_def)
next
  case (Suc n)
  have "n \<le> len" using Suc.prems by simp
  note ih = Suc.IH [OF this]
  have "(pool_start len (Suc n) :: 'a pool) = worker_take len (pool_start len n)"
    by (simp add: pool_start_def)
  then show ?case using Suc.prems by (simp add: ih worker_take_def Let_def)
qed

text \<open>Taking one element out of a list.\<close>

lemma mset_remove_nth:
  assumes "k < length xs"
  shows "mset (take k xs @ drop (Suc k) xs) + {#xs ! k#} = mset xs"
proof -
  have "xs = take k xs @ xs ! k # drop (Suc k) xs"
    using assms by (rule id_take_nth_drop)
  then have "mset xs = mset (take k xs @ xs ! k # drop (Suc k) xs)" by simp
  then show ?thesis by simp
qed

text \<open>
  The invariant of the event loop: the results are the outcomes of a list of indices
  which, with the awaited indices, makes up the indices started so far, and these
  are the first ones; the loop ends only when all are started.
\<close>

lemma pool_loop_all:
  assumes "pl_results p = map (\<lambda>j. fn j (items ! j)) dn"
    and "mset dn + mset (pl_waiting p) = mset [0..<min (pl_i p) (length items)]"
    and "pl_started p = [0..<min (pl_i p) (length items)]"
    and "pl_waiting p = [] \<longrightarrow> length items \<le> pl_i p"
  shows "\<exists>dn'. pl_results (pool_loop items fn sched p) = map (\<lambda>j. fn j (items ! j)) dn'
           \<and> mset dn' = mset [0..<length items]
           \<and> pl_started (pool_loop items fn sched p) = [0..<length items]
           \<and> pl_waiting (pool_loop items fn sched p) = []"
  using assms
proof (induction items fn sched p arbitrary: dn rule: pool_loop.induct)
  case (1 items fn sched p)
  show ?case
  proof (cases "pl_waiting p = []")
    case True
    then have "pool_loop items fn sched p = p"
      by (subst pool_loop.simps) simp
    moreover have "min (pl_i p) (length items) = length items"
      using True "1.prems"(4) by simp
    ultimately show ?thesis
      using True "1.prems" by auto
  next
    case False
    define k where "k = (case sched of [] \<Rightarrow> 0 | c # _ \<Rightarrow> c mod length (pl_waiting p))"
    define idx where "idx = pl_waiting p ! k"
    define p1 where "p1 = p\<lparr>pl_results := pl_results p @ [fn idx (items ! idx)],
                   pl_waiting := take k (pl_waiting p) @ drop (Suc k) (pl_waiting p)\<rparr>"
    define p2 where "p2 = worker_take (length items) p1"
    have k: "k < length (pl_waiting p)"
      using False by (cases sched) (simp_all add: k_def)
    have step: "pool_loop items fn sched p = pool_loop items fn (tl sched) p2"
      using False by (subst pool_loop.simps) (simp add: Let_def k_def idx_def p1_def p2_def)
    have rem: "mset (pl_waiting p1) + {#idx#} = mset (pl_waiting p)"
      using mset_remove_nth [OF k] by (simp add: p1_def idx_def)
    have a1: "pl_results p2 = map (\<lambda>j. fn j (items ! j)) (dn @ [idx])"
      using "1.prems"(1) by (simp add: p2_def p1_def worker_take_def Let_def)
    have a2: "mset (dn @ [idx]) + mset (pl_waiting p2) = mset [0..<min (pl_i p2) (length items)]"
    proof (cases "pl_i p < length items")
      case True
      then have "pl_waiting p2 = pl_waiting p1 @ [pl_i p]" "pl_i p2 = Suc (pl_i p)"
        by (simp_all add: p2_def p1_def worker_take_def Let_def)
      moreover have "min (Suc (pl_i p)) (length items) = Suc (pl_i p)"
        "min (pl_i p) (length items) = pl_i p"
        using True by simp_all
      ultimately show ?thesis
        using "1.prems"(2) rem [symmetric] by simp
    next
      case False
      then have "pl_waiting p2 = pl_waiting p1" "pl_i p2 = Suc (pl_i p)"
        by (simp_all add: p2_def p1_def worker_take_def Let_def)
      moreover have "min (Suc (pl_i p)) (length items) = length items"
        "min (pl_i p) (length items) = length items"
        using False by simp_all
      ultimately show ?thesis
        using "1.prems"(2) rem [symmetric] by simp
    qed
    have a3: "pl_started p2 = [0..<min (pl_i p2) (length items)]"
    proof (cases "pl_i p < length items")
      case True
      then have "pl_started p2 = pl_started p @ [pl_i p]" "pl_i p2 = Suc (pl_i p)"
        by (simp_all add: p2_def p1_def worker_take_def Let_def)
      moreover have "min (Suc (pl_i p)) (length items) = Suc (pl_i p)"
        "min (pl_i p) (length items) = pl_i p"
        using True by simp_all
      ultimately show ?thesis
        using "1.prems"(3) by simp
    next
      case False
      then have "pl_started p2 = pl_started p" "pl_i p2 = Suc (pl_i p)"
        by (simp_all add: p2_def p1_def worker_take_def Let_def)
      moreover have "min (Suc (pl_i p)) (length items) = length items"
        "min (pl_i p) (length items) = length items"
        using False by simp_all
      ultimately show ?thesis
        using "1.prems"(3) by simp
    qed
    have a4: "pl_waiting p2 = [] \<longrightarrow> length items \<le> pl_i p2"
      by (simp add: p2_def p1_def worker_take_def Let_def)
    have "\<exists>dn'. pl_results (pool_loop items fn (tl sched) p2) = map (\<lambda>j. fn j (items ! j)) dn'
           \<and> mset dn' = mset [0..<length items]
           \<and> pl_started (pool_loop items fn (tl sched) p2) = [0..<length items]
           \<and> pl_waiting (pool_loop items fn (tl sched) p2) = []"
      using "1.IH" [OF False k_def idx_def p1_def a1 [unfolded p2_def] a2 [unfolded p2_def]
          a3 [unfolded p2_def] a4 [unfolded p2_def]] by (simp add: p2_def)
    then show ?thesis by (simp only: step)
  qed
qed

text \<open>
  With at least one worker, under every schedule: \<^verbatim>\<open>fn\<close> is called once for each
  index, in index order, and the results are the outcomes of these calls, in some order.
\<close>

lemma runPool_exactly_once:
  fixes items :: "'a list" and fn :: "nat \<Rightarrow> 'a \<Rightarrow> 'r"
  assumes "1 \<le> s"
  shows "mset (pl_results (runPool items (Num s) fn sched))
           = mset (map (\<lambda>j. fn j (items ! j)) [0..<length items])
       \<and> pl_started (runPool items (Num s) fn sched) = [0..<length items]"
proof -
  define n where "n = to_length (js_min (Num s) (Num (int (length items))))"
  have n: "n = min (nat s) (length items)"
    using assms by (auto simp: n_def to_length_def min_def nat_le_iff)
  then have start: "pool_start (length items) n
      = \<lparr>pl_i = n, pl_waiting = [0..<n], pl_started = [0..<n], pl_results = ([] :: 'r list)\<rparr>"
    by (intro pool_start_eq) simp
  have nle: "min n (length items) = n" using n by simp
  have e: "n = 0 \<longrightarrow> length items = 0"
  proof
    assume "n = 0"
    moreover have "0 < nat s" using assms by simp
    ultimately show "length items = 0" using n by (simp add: min_def split: if_splits)
  qed
  let ?p = "pool_start (length items) n :: 'r pool"
  have h1: "pl_results ?p = map (\<lambda>j. fn j (items ! j)) []"
    by (simp add: start)
  have h2: "mset [] + mset (pl_waiting ?p) = mset [0..<min (pl_i ?p) (length items)]"
    by (simp add: start nle)
  have h3: "pl_started ?p = [0..<min (pl_i ?p) (length items)]"
    by (simp add: start nle)
  have h4: "pl_waiting ?p = [] \<longrightarrow> length items \<le> pl_i ?p"
    using e by (simp add: start)
  from pool_loop_all [where p = ?p and fn = fn and items = items and dn = "[]"
      and sched = sched, OF h1 h2 h3 h4]
  obtain dn' where
    r: "pl_results (pool_loop items fn sched ?p) = map (\<lambda>j. fn j (items ! j)) dn'"
    and m: "mset dn' = mset [0..<length items]"
    and st: "pl_started (pool_loop items fn sched ?p) = [0..<length items]"
    by blast
  have "image_mset (\<lambda>j. fn j (items ! j)) (mset dn')
      = image_mset (\<lambda>j. fn j (items ! j)) (mset [0..<length items])"
    by (simp only: m)
  then have "mset (map (\<lambda>j. fn j (items ! j)) dn')
      = mset (map (\<lambda>j. fn j (items ! j)) [0..<length items])"
    by (simp only: mset_map)
  moreover have "runPool items (Num s) fn sched = pool_loop items fn sched ?p"
    by (simp only: runPool_def n_def)
  ultimately show ?thesis
    using r st by simp
qed


lemma pool_loop_done: "pl_waiting p = [] \<Longrightarrow> pool_loop items fn sched p = p"
  by (subst pool_loop.simps) simp

text \<open>Without a worker the pool returns at once, with no call and no result.\<close>

lemma runPool_no_worker:
  assumes "to_length (js_min sz (Num (int (length items)))) = 0"
  shows "runPool items sz fn sched = \<lparr>pl_i = 0, pl_waiting = [], pl_started = [], pl_results = []\<rparr>"
  using assms by (simp add: runPool_def pool_start_def pool_loop_done)

lemma runPool_Nil:
  "runPool [] sz fn sched = \<lparr>pl_i = 0, pl_waiting = [], pl_started = [], pl_results = []\<rparr>"
  by (rule runPool_no_worker) (cases sz, simp_all add: to_length_def)

lemma runPool_NaN:
  "runPool items NaN fn sched = \<lparr>pl_i = 0, pl_waiting = [], pl_started = [], pl_results = []\<rparr>"
  by (rule runPool_no_worker) (simp add: to_length_def)

section \<open>What a run of doPing does\<close>

lemma doPing_skipped:
  assumes "\<not> is_dry opts" "rate_limited w"
  shows "doPing env payload opts net sched now w
           = (Skipped ''rate-limited (<=1/hour)'', w\<lparr>events := events w @ [KvGet RL_KEY]\<rparr>)"
  using assms by (simp add: doPing_def is_dry_def rate_limited_def kv_get_def Let_def)

text \<open>The resolution of the endpoint list looks at one key of the store only.\<close>

lemma run_resolution_cong:
  assumes "kv w' ''xmlrpc:endpoints'' = kv w ''xmlrpc:endpoints''"
  shows "run_resolution env payload opts w' = run_resolution env payload opts w"
    and "run_throws env payload opts w' = run_throws env payload opts w"
    and "run_endpoints env payload opts w' = run_endpoints env payload opts w"
  using assms by (simp_all add: run_resolution_def run_throws_def run_endpoints_def)

lemma run_resolves:
  assumes "run_throws env payload opts w = None"
  shows "resolve_endpoints (map_option fst (kv w ''xmlrpc:endpoints'')) payload env
           (orElse (o_limit opts) (Num 0)) = Inr (run_endpoints env payload opts w)"
  using assms
  by (simp add: run_throws_def run_endpoints_def run_resolution_def split: sum.splits)

lemma run_throws_error:
  assumes "run_throws env payload opts w = Some e"
  shows "resolve_endpoints (map_option fst (kv w ''xmlrpc:endpoints'')) payload env
           (orElse (o_limit opts) (Num 0)) = Inl e"
  using assms
  by (simp add: run_throws_def run_resolution_def split: sum.splits)

text \<open>
  With nothing under \<^verbatim>\<open>xmlrpc:endpoints\<close> and PING_ENDPOINTS unset, the list is the one
  of the payload or the built-in one, and nothing throws.
\<close>

lemma plain_resolution:
  assumes "kv w ''xmlrpc:endpoints'' = None" "PING_ENDPOINTS env = None"
  shows "run_endpoints env payload opts w
           = apply_limit (orElse (o_limit opts) (Num 0))
               (case p_endpoints payload of Some xs \<Rightarrow> xs | None \<Rightarrow> minimal_endpoints)"
    and "run_throws env payload opts w = None"
  using assms
  by (simp_all add: run_endpoints_def run_throws_def run_resolution_def resolve_endpoints_def
      Let_def split: option.splits)

text \<open>
  A run whose resolution of the endpoint list throws ends after the read of
  \<^verbatim>\<open>xmlrpc:endpoints\<close>: nothing is written and no ping is dispatched.
\<close>

lemma doPing_throws:
  assumes "is_dry opts \<or> \<not> rate_limited w" "run_throws env payload opts w = Some e"
  shows "doPing env payload opts net sched now w
           = (Threw e,
              w\<lparr>events := events w @ (if is_dry opts then [] else [KvGet RL_KEY])
                   @ [KvGet ''xmlrpc:endpoints'']\<rparr>)"
  using assms(1)
  by (auto simp: doPing_def is_dry_def rate_limited_def kv_get_def Let_def
      run_throws_error [OF assms(2)])

lemma doPing_dry:
  assumes "is_dry opts" "run_throws env payload opts w = None"
  shows "doPing env payload opts net sched now w
           = (Done (run_report env payload opts net sched w),
              w\<lparr>events := events w @ [KvGet ''xmlrpc:endpoints'']
                   @ run_pings env payload opts net sched w\<rparr>)"
  using assms(1)
  unfolding run_report_def run_summary_def run_pings_def run_pool_def run_plan_def
    run_concurrency_def run_body_def run_method_def run_feedUrl_def
    run_siteName_def run_siteUrl_def
  by (simp add: doPing_def is_dry_def kv_get_def Let_def run_resolves [OF assms(2)])

lemma doPing_real:
  assumes "\<not> is_dry opts" "\<not> rate_limited w" "run_throws env payload opts w = None"
  shows "doPing env payload opts net sched now w
           = (Done (run_report env payload opts net sched w),
              \<lparr>kv = (kv w)(RL_KEY \<mapsto> (Text (decimal now), Some HOUR),
                         ''xmlrpc:last-result'' \<mapsto>
                           (Doc now None (RunSummary (run_siteName env payload)
                              (run_siteUrl env payload) (run_feedUrl env payload)
                              (run_summary env payload opts net sched w)), Some (7 * 24 * 3600))),
               events = events w @ [KvGet RL_KEY, KvGet ''xmlrpc:endpoints'',
                    KvPut RL_KEY (Text (decimal now)) (Some HOUR)]
                 @ run_pings env payload opts net sched w
                 @ [KvPut ''xmlrpc:last-result''
                     (Doc now None (RunSummary (run_siteName env payload)
                        (run_siteUrl env payload) (run_feedUrl env payload)
                        (run_summary env payload opts net sched w))) (Some (7 * 24 * 3600))]\<rparr>)"
  using assms(1,2)
  unfolding run_report_def run_summary_def run_pings_def run_pool_def run_plan_def
    run_concurrency_def run_body_def run_method_def run_feedUrl_def
    run_siteName_def run_siteUrl_def
  by (simp add: doPing_def is_dry_def rate_limited_def kv_get_def kv_put_def Let_def
      run_resolves [OF assms(3)])

lemma new_events_append: "events w' = events w @ es \<Longrightarrow> new_events w w' = es"
  by (simp add: new_events_def)

text \<open>
  C5. In every non-dry run that passes the rate-limit check, no ping is dispatched
  before the rate-limit record is written. If the endpoint list resolves, the trace of
  the run is: the read of the rate-limit record, the read of the endpoint list, the
  write of the rate-limit record (key xmlrpc:last-ping, the clock as text, expiry 3600
  seconds), then the pings of the batch, then the write of the last result; the run
  returns the report, and the store after it holds the rate-limit record written. If
  the resolution of the endpoint list throws, the run ends after the two reads, with
  no ping at all and the store unchanged.
\<close>

theorem C5_lock_written_before_pings:
  assumes "\<not> is_dry opts" and "\<not> rate_limited w"
  shows "lock_before_pings (new_events w (snd (doPing env payload opts net sched now w)))
       \<and> (run_throws env payload opts w = None \<longrightarrow>
            new_events w (snd (doPing env payload opts net sched now w))
              = [KvGet RL_KEY, KvGet ''xmlrpc:endpoints'',
                 KvPut RL_KEY (Text (decimal now)) (Some HOUR)]
                @ run_pings env payload opts net sched w
                @ [KvPut ''xmlrpc:last-result''
                     (Doc now None (RunSummary (run_siteName env payload)
                        (run_siteUrl env payload) (run_feedUrl env payload)
                        (run_summary env payload opts net sched w))) (Some (7 * 24 * 3600))]
            \<and> kv (snd (doPing env payload opts net sched now w)) RL_KEY
                = Some (Text (decimal now), Some HOUR)
            \<and> kv (snd (doPing env payload opts net sched now w))
                = (kv w)(RL_KEY \<mapsto> (Text (decimal now), Some HOUR),
                         ''xmlrpc:last-result'' \<mapsto>
                           (Doc now None (RunSummary (run_siteName env payload)
                              (run_siteUrl env payload) (run_feedUrl env payload)
                              (run_summary env payload opts net sched w)), Some (7 * 24 * 3600)))
            \<and> fst (doPing env payload opts net sched now w)
                = Done (run_report env payload opts net sched w))
       \<and> (\<forall>e. run_throws env payload opts w = Some e \<longrightarrow>
            fst (doPing env payload opts net sched now w) = Threw e
            \<and> new_events w (snd (doPing env payload opts net sched now w))
                = [KvGet RL_KEY, KvGet ''xmlrpc:endpoints'']
            \<and> kv (snd (doPing env payload opts net sched now w)) = kv w)
       \<and> HOUR = 3600"
proof (cases "run_throws env payload opts w")
  case None
  note dp = doPing_real [OF assms None, where net = net and sched = sched and now = now]
  have n: "new_events w (snd (doPing env payload opts net sched now w))
           = [KvGet RL_KEY, KvGet ''xmlrpc:endpoints'',
              KvPut RL_KEY (Text (decimal now)) (Some HOUR)]
             @ run_pings env payload opts net sched w
             @ [KvPut ''xmlrpc:last-result''
                  (Doc now None (RunSummary (run_siteName env payload)
                     (run_siteUrl env payload) (run_feedUrl env payload)
                     (run_summary env payload opts net sched w))) (Some (7 * 24 * 3600))]"
    by (rule new_events_append) (simp add: dp)
  have l: "lock_before_pings (new_events w (snd (doPing env payload opts net sched now w)))"
    by (simp add: n)
  have k: "kv (snd (doPing env payload opts net sched now w)) RL_KEY
      = Some (Text (decimal now), Some HOUR)"
    by (simp add: dp RL_KEY_def)
  have k': "kv (snd (doPing env payload opts net sched now w))
      = (kv w)(RL_KEY \<mapsto> (Text (decimal now), Some HOUR),
               ''xmlrpc:last-result'' \<mapsto>
                 (Doc now None (RunSummary (run_siteName env payload)
                    (run_siteUrl env payload) (run_feedUrl env payload)
                    (run_summary env payload opts net sched w)), Some (7 * 24 * 3600)))"
    by (simp add: dp)
  have r: "fst (doPing env payload opts net sched now w)
      = Done (run_report env payload opts net sched w)"
    by (simp add: dp)
  from n l k k' r None show ?thesis by (simp add: HOUR_def)
next
  case (Some e)
  have a: "is_dry opts \<or> \<not> rate_limited w" using assms(2) by simp
  note dp = doPing_throws [OF a Some, where net = net and sched = sched and now = now]
  have n: "new_events w (snd (doPing env payload opts net sched now w))
           = [KvGet RL_KEY, KvGet ''xmlrpc:endpoints'']"
    by (rule new_events_append) (simp add: dp assms(1))
  have l: "lock_before_pings (new_events w (snd (doPing env payload opts net sched now w)))"
    by (simp add: n)
  have k: "kv (snd (doPing env payload opts net sched now w)) = kv w"
    by (simp add: dp)
  have r: "fst (doPing env payload opts net sched now w) = Threw e"
    by (simp add: dp)
  from n l k r Some show ?thesis by (simp add: HOUR_def)
qed

theorem C5_lock_written_before_pings_witness:
  "\<not> is_dry no_opts \<and> \<not> rate_limited empty_world
   \<and> run_throws default_env no_payload no_opts empty_world = None
   \<and> lock_before_pings
       (new_events empty_world (snd (doPing default_env no_payload no_opts net_all_ok [] 42 empty_world)))
   \<and> kv (snd (doPing default_env no_payload no_opts net_all_ok [] 42 empty_world)) RL_KEY
       = Some (Text (decimal 42), Some HOUR)
   \<and> kv empty_world RL_KEY = None"
proof -
  have d: "\<not> is_dry no_opts" by (simp add: is_dry_def no_opts_def orElse_def)
  have r: "\<not> rate_limited empty_world" by (simp add: rate_limited_def empty_world_def)
  have t: "run_throws default_env no_payload no_opts empty_world = None"
    by (rule plain_resolution(2)) (simp_all add: empty_world_def default_env_def)
  have k: "kv empty_world RL_KEY = None" by (simp add: empty_world_def)
  from C5_lock_written_before_pings [OF d r, where env = default_env and payload = no_payload
      and net = net_all_ok and sched = "[]" and now = 42] d r t k
  show ?thesis by (simp add: RL_KEY_def)
qed


section \<open>What the manual trigger does\<close>

lemma fetch_post:
  assumes "authorised_post env rq" "rq_body rq = Some body"
  shows "fetch env rq net sched now w =
     (let res = fst (doPing env body (fetch_opts rq) net sched now w);
          w1 = snd (doPing env body (fetch_opts rq) net sched now w)
      in if is_Threw res then (Uncaught (thrown res), w1)
         else
           let w2 = (if q_dry rq \<noteq> Some ''1''
                     then kv_put ''xmlrpc:last-result'' (Doc now None (Report res)) (Some (7 * 24 * 3600)) w1
                     else kv_put ''xmlrpc:last-dry'' (Doc now None (Report res)) (Some (24 * 3600)) w1)
           in (if q_format rq = Some ''csv'' then Csv (summary_of res)
               else if q_format rq = Some ''ndjson'' then Ndjson (summary_of res)
               else Json res, w2))"
  using assms
  unfolding fetch_opts_def
  by (simp add: fetch_def authorised_post_def truthy_def Let_def split: prod.splits)

text \<open>The body \<^verbatim>\<open>null\<close>: the handler throws before it calls doPing.\<close>

lemma fetch_null:
  assumes "authorised_post env rq" "rq_body rq = None"
  shows "fetch env rq net sched now w = (Uncaught TypeError, w)"
  using assms by (simp add: fetch_def authorised_post_def truthy_def Let_def)

text \<open>An exception of doPing leaves the handler before its write.\<close>

lemma fetch_throws:
  assumes "authorised_post env rq" "rq_body rq = Some body"
    and "is_dry (fetch_opts rq) \<or> \<not> rate_limited w"
    and "run_throws env body (fetch_opts rq) w = Some e"
  shows "fetch env rq net sched now w
           = (Uncaught e,
              w\<lparr>events := events w @ (if is_dry (fetch_opts rq) then [] else [KvGet RL_KEY])
                   @ [KvGet ''xmlrpc:endpoints'']\<rparr>)"
  by (simp add: fetch_post [OF assms(1,2)] doPing_throws [OF assms(3,4)] Let_def)

lemma is_dry_fetch_opts: "is_dry (fetch_opts rq) = (q_dry rq = Some ''1'')"
  by (simp add: is_dry_def fetch_opts_def orElse_def)

lemma get_keys_append: "get_keys (a @ b) = get_keys a @ get_keys b"
  by (induction a rule: get_keys.induct) simp_all

lemma put_keys_append: "put_keys (a @ b) = put_keys a @ put_keys b"
  by (induction a rule: put_keys.induct) simp_all

lemma ping_urls_append: "ping_urls (a @ b) = ping_urls a @ ping_urls b"
  by (induction a rule: ping_urls.induct) simp_all

lemma get_keys_pings: "get_keys (map (\<lambda>i. Ping (f i) b) xs) = []"
  by (induction xs) simp_all

lemma put_keys_pings: "put_keys (map (\<lambda>i. Ping (f i) b) xs) = []"
  by (induction xs) simp_all

lemma ping_urls_pings: "ping_urls (map (\<lambda>i. Ping (f i) b) xs) = map f xs"
  by (induction xs) simp_all

lemma fetch_dry:
  assumes "authorised_post env rq" "q_dry rq = Some ''1''" "rq_body rq = Some body"
    and "run_throws env body (fetch_opts rq) w = None"
  shows "fst (fetch env rq net sched now w)
           = (if q_format rq = Some ''csv''
              then Csv (run_summary env body (fetch_opts rq) net sched w)
              else if q_format rq = Some ''ndjson''
              then Ndjson (run_summary env body (fetch_opts rq) net sched w)
              else Json (Done (run_report env body (fetch_opts rq) net sched w)))"
    and "kv (snd (fetch env rq net sched now w))
           = (kv w)(''xmlrpc:last-dry'' \<mapsto>
               (Doc now None (Report (Done (run_report env body (fetch_opts rq) net sched w))),
                Some (24 * 3600)))"
    and "new_events w (snd (fetch env rq net sched now w))
           = [KvGet ''xmlrpc:endpoints''] @ run_pings env body (fetch_opts rq) net sched w
             @ [KvPut ''xmlrpc:last-dry''
                 (Doc now None (Report (Done (run_report env body (fetch_opts rq) net sched w))))
                 (Some (24 * 3600))]"
proof -
  have d: "is_dry (fetch_opts rq)" using assms(2) by (simp add: is_dry_fetch_opts)
  note dp = doPing_dry [OF d assms(4), where net = net and sched = sched and now = now]
  note fp = fetch_post [OF assms(1,3)]
  show "fst (fetch env rq net sched now w)
           = (if q_format rq = Some ''csv''
              then Csv (run_summary env body (fetch_opts rq) net sched w)
              else if q_format rq = Some ''ndjson''
              then Ndjson (run_summary env body (fetch_opts rq) net sched w)
              else Json (Done (run_report env body (fetch_opts rq) net sched w)))"
    using assms(2) by (simp add: fp dp Let_def run_report_def)
  show "kv (snd (fetch env rq net sched now w))
           = (kv w)(''xmlrpc:last-dry'' \<mapsto>
               (Doc now None (Report (Done (run_report env body (fetch_opts rq) net sched w))),
                Some (24 * 3600)))"
    using assms(2) by (simp add: fp dp Let_def kv_put_def)
  show "new_events w (snd (fetch env rq net sched now w))
           = [KvGet ''xmlrpc:endpoints''] @ run_pings env body (fetch_opts rq) net sched w
             @ [KvPut ''xmlrpc:last-dry''
                 (Doc now None (Report (Done (run_report env body (fetch_opts rq) net sched w))))
                 (Some (24 * 3600))]"
    using assms(2) by (intro new_events_append) (simp add: fp dp Let_def kv_put_def)
qed

text \<open>
  Every dry run whose body is not \<^verbatim>\<open>null\<close> and whose endpoint list resolves reads only
  the endpoint list and writes only the key xmlrpc:last-dry, set to the report of the
  run with an expiry of 24 hours; its response is the report, with status "done" (or
  the rows of that report, for the formats csv and ndjson). A second such run right
  after the first does the same on the store the first one left, and the rate-limit
  record and the last real result are still those from before the two runs.
\<close>

lemma dry_runs_frame:
  assumes "authorised_post env rq1" and "q_dry rq1 = Some ''1''" and "rq_body rq1 = Some body1"
    and "run_throws env body1 (fetch_opts rq1) w = None"
    and "authorised_post env rq2" and "q_dry rq2 = Some ''1''" and "rq_body rq2 = Some body2"
    and "run_throws env body2 (fetch_opts rq2) w = None"
    and "q_format rq1 \<noteq> Some ''csv''" and "q_format rq1 \<noteq> Some ''ndjson''"
    and "q_format rq2 \<noteq> Some ''csv''" and "q_format rq2 \<noteq> Some ''ndjson''"
  shows "get_keys (new_events w (snd (fetch env rq1 net1 sched1 now1 w))) = [''xmlrpc:endpoints'']"
    and "put_keys (new_events w (snd (fetch env rq1 net1 sched1 now1 w))) = [''xmlrpc:last-dry'']"
    and "kv (snd (fetch env rq1 net1 sched1 now1 w))
           = (kv w)(''xmlrpc:last-dry'' \<mapsto>
               (Doc now1 None (Report (Done (run_report env body1 (fetch_opts rq1) net1 sched1 w))),
                Some (24 * 3600)))"
    and "fst (fetch env rq1 net1 sched1 now1 w)
           = Json (Done (run_report env body1 (fetch_opts rq1) net1 sched1 w))"
    and "get_keys (new_events (snd (fetch env rq1 net1 sched1 now1 w))
            (snd (fetch env rq2 net2 sched2 now2 (snd (fetch env rq1 net1 sched1 now1 w)))))
           = [''xmlrpc:endpoints'']"
    and "put_keys (new_events (snd (fetch env rq1 net1 sched1 now1 w))
            (snd (fetch env rq2 net2 sched2 now2 (snd (fetch env rq1 net1 sched1 now1 w)))))
           = [''xmlrpc:last-dry'']"
    and "kv (snd (fetch env rq2 net2 sched2 now2 (snd (fetch env rq1 net1 sched1 now1 w))))
           = (kv w)(''xmlrpc:last-dry'' \<mapsto>
               (Doc now2 None (Report (Done (run_report env body2 (fetch_opts rq2) net2 sched2
                  (snd (fetch env rq1 net1 sched1 now1 w))))),
                Some (24 * 3600)))"
    and "fst (fetch env rq2 net2 sched2 now2 (snd (fetch env rq1 net1 sched1 now1 w)))
           = Json (Done (run_report env body2 (fetch_opts rq2) net2 sched2
               (snd (fetch env rq1 net1 sched1 now1 w))))"
    and "kv (snd (fetch env rq2 net2 sched2 now2 (snd (fetch env rq1 net1 sched1 now1 w)))) RL_KEY
           = kv w RL_KEY"
    and "kv (snd (fetch env rq2 net2 sched2 now2 (snd (fetch env rq1 net1 sched1 now1 w))))
            ''xmlrpc:last-result''
           = kv w ''xmlrpc:last-result''"
proof -
  let ?w1 = "snd (fetch env rq1 net1 sched1 now1 w)"
  let ?w2 = "snd (fetch env rq2 net2 sched2 now2 ?w1)"
  note f1 = fetch_dry [OF assms(1,2,3,4), where net = net1 and sched = sched1 and now = now1]
  have e: "kv ?w1 ''xmlrpc:endpoints'' = kv w ''xmlrpc:endpoints''"
    by (simp add: f1(2))
  have t2: "run_throws env body2 (fetch_opts rq2) ?w1 = None"
    using assms(8) by (simp add: run_resolution_cong(2) [OF e])
  note f2 = fetch_dry [OF assms(5,6,7) t2, where net = net2 and sched = sched2 and now = now2]
  show "get_keys (new_events w ?w1) = [''xmlrpc:endpoints'']"
    by (simp add: f1(3) get_keys_append run_pings_def get_keys_pings)
  show "put_keys (new_events w ?w1) = [''xmlrpc:last-dry'']"
    by (simp add: f1(3) put_keys_append run_pings_def put_keys_pings)
  show "kv ?w1 = (kv w)(''xmlrpc:last-dry'' \<mapsto>
               (Doc now1 None (Report (Done (run_report env body1 (fetch_opts rq1) net1 sched1 w))),
                Some (24 * 3600)))"
    by (rule f1(2))
  show "fst (fetch env rq1 net1 sched1 now1 w)
           = Json (Done (run_report env body1 (fetch_opts rq1) net1 sched1 w))"
    using assms(9,10) by (simp add: f1(1))
  show "get_keys (new_events ?w1 ?w2) = [''xmlrpc:endpoints'']"
    by (simp add: f2(3) get_keys_append run_pings_def get_keys_pings)
  show "put_keys (new_events ?w1 ?w2) = [''xmlrpc:last-dry'']"
    by (simp add: f2(3) put_keys_append run_pings_def put_keys_pings)
  show k2: "kv ?w2 = (kv w)(''xmlrpc:last-dry'' \<mapsto>
               (Doc now2 None (Report (Done (run_report env body2 (fetch_opts rq2) net2 sched2 ?w1))),
                Some (24 * 3600)))"
    by (simp add: f2(2) f1(2))
  show "fst (fetch env rq2 net2 sched2 now2 ?w1)
           = Json (Done (run_report env body2 (fetch_opts rq2) net2 sched2 ?w1))"
    using assms(11,12) by (simp add: f2(1))
  show "kv ?w2 RL_KEY = kv w RL_KEY"
    by (simp add: k2 RL_KEY_def)
  show "kv ?w2 ''xmlrpc:last-result'' = kv w ''xmlrpc:last-result''"
    by (simp add: k2)
qed

text \<open>
  A dry run never reads nor writes the rate-limit record and never writes the last
  real result, also when it throws: it then makes no write at all.
\<close>

lemma dry_run_no_lock:
  assumes "authorised_post env rq" and "q_dry rq = Some ''1''"
  shows "RL_KEY \<notin> set (get_keys (new_events w (snd (fetch env rq net sched now w))))
       \<and> set (put_keys (new_events w (snd (fetch env rq net sched now w)))) \<subseteq> {''xmlrpc:last-dry''}"
proof (cases "rq_body rq")
  case None
  have "new_events w (snd (fetch env rq net sched now w)) = []"
    by (rule new_events_append) (simp add: fetch_null [OF assms(1) None])
  then show ?thesis by simp
next
  case (Some body)
  have d: "is_dry (fetch_opts rq)" using assms(2) by (simp add: is_dry_fetch_opts)
  show ?thesis
  proof (cases "run_throws env body (fetch_opts rq) w")
    case None
    note f = fetch_dry [OF assms Some None, where net = net and sched = sched and now = now]
    show ?thesis
      by (simp add: f(3) get_keys_append put_keys_append run_pings_def get_keys_pings
          put_keys_pings RL_KEY_def)
  next
    case (Some e)
    have a: "is_dry (fetch_opts rq) \<or> \<not> rate_limited w" using d by simp
    have "new_events w (snd (fetch env rq net sched now w)) = [KvGet ''xmlrpc:endpoints'']"
      by (rule new_events_append)
        (simp add: fetch_throws [OF assms(1) \<open>rq_body rq = Some body\<close> a Some] d)
    then show ?thesis by (simp add: RL_KEY_def)
  qed
qed

text \<open>
  C6. The claim: every dry run never reads nor writes the rate-limit record, never
  writes the last real result, and always overwrites the dry snapshot
  (xmlrpc:last-dry); two dry runs in a row both return status "done". On the code, at
  an authorised POST with dry = 1 whose JSON body is \<^verbatim>\<open>null\<close>: safeJson returns
  \<^verbatim>\<open>null\<close>, \<^verbatim>\<open>body.cursor\<close> throws a \<^verbatim>\<open>TypeError\<close> that nothing catches, the handler
  builds no response, doPing is not called and nothing is read or written: no dry
  snapshot is stored, neither by this run nor by the same request sent again. With
  PING_ENDPOINTS set to a text that is no JSON and an empty JSON body, a dry run reads
  the endpoint list, \<^verbatim>\<open>JSON.parse\<close> throws a \<^verbatim>\<open>SyntaxError\<close>, and again no report is
  returned and no dry snapshot is written. (A dry run never touches the rate-limit
  record nor the last real result: \<open>dry_run_no_lock\<close>; where the body is not
  \<^verbatim>\<open>null\<close> and the endpoint list resolves, dry runs do overwrite the snapshot and
  return "done": \<open>dry_runs_frame\<close>.)
\<close>

theorem C6_dry_run_throws_without_snapshot:
  "authorised_post default_env null_dry_request \<and> q_dry null_dry_request = Some ''1''
   \<and> rq_body null_dry_request = None
   \<and> fst (fetch default_env null_dry_request net_all_ok [] 1700003600000 empty_world) = Uncaught TypeError
   \<and> new_events empty_world (snd (fetch default_env null_dry_request net_all_ok [] 1700003600000 empty_world)) = []
   \<and> kv (snd (fetch default_env null_dry_request net_all_ok [] 1700003600000 empty_world)) ''xmlrpc:last-dry''
       = None
   \<and> fst (fetch default_env null_dry_request net_all_ok [] 1700003660000
          (snd (fetch default_env null_dry_request net_all_ok [] 1700003600000 empty_world)))
       = Uncaught TypeError
   \<and> kv (snd (fetch default_env null_dry_request net_all_ok [] 1700003660000
          (snd (fetch default_env null_dry_request net_all_ok [] 1700003600000 empty_world)))) ''xmlrpc:last-dry''
       = None
   \<and> authorised_post bad_endpoints_env dry_request \<and> q_dry dry_request = Some ''1''
   \<and> rq_body dry_request = Some no_payload
   \<and> PING_ENDPOINTS bad_endpoints_env = Some NotJson
   \<and> fst (fetch bad_endpoints_env dry_request net_all_ok [] 1700003600000 empty_world) = Uncaught SyntaxError
   \<and> new_events empty_world (snd (fetch bad_endpoints_env dry_request net_all_ok [] 1700003600000 empty_world))
       = [KvGet ''xmlrpc:endpoints'']
   \<and> kv (snd (fetch bad_endpoints_env dry_request net_all_ok [] 1700003600000 empty_world)) ''xmlrpc:last-dry''
       = None"
proof -
  have a: "authorised_post default_env null_dry_request"
    by (simp add: authorised_post_def default_env_def null_dry_request_def dry_request_def
        post_request_def)
  have d: "q_dry null_dry_request = Some ''1''" "rq_body null_dry_request = None"
    by (simp_all add: null_dry_request_def dry_request_def)
  note f = fetch_null [OF a d(2), where net = net_all_ok and sched = "[]"]
  have n: "new_events empty_world (snd (fetch default_env null_dry_request net_all_ok [] 1700003600000 empty_world)) = []"
    by (rule new_events_append) (simp add: f)
  have k: "kv empty_world ''xmlrpc:last-dry'' = None"
    by (simp add: empty_world_def)
  have a': "authorised_post bad_endpoints_env dry_request"
    by (simp add: authorised_post_def bad_endpoints_env_def default_env_def dry_request_def
        post_request_def)
  have d': "q_dry dry_request = Some ''1''" "rq_body dry_request = Some no_payload"
    by (simp_all add: dry_request_def post_request_def)
  have p: "PING_ENDPOINTS bad_endpoints_env = Some NotJson"
    by (simp add: bad_endpoints_env_def)
  have dry: "is_dry (fetch_opts dry_request) \<or> \<not> rate_limited empty_world"
    by (simp add: is_dry_fetch_opts d'(1))
  have t: "run_throws bad_endpoints_env no_payload (fetch_opts dry_request) empty_world
      = Some SyntaxError"
    by (simp add: run_throws_def run_resolution_def resolve_endpoints_def p no_payload_def
        empty_world_def Let_def)
  note g = fetch_throws [OF a' d'(2) dry t, where net = net_all_ok and sched = "[]" and now = 1700003600000]
  have n': "new_events empty_world (snd (fetch bad_endpoints_env dry_request net_all_ok [] 1700003600000 empty_world))
      = [KvGet ''xmlrpc:endpoints'']"
    by (rule new_events_append) (simp add: g is_dry_fetch_opts d'(1))
  show ?thesis
    using a d a' d' p n n' k by (simp add: f g)
qed

theorem C6_dry_run_throws_without_snapshot_witness:
  "fst (fetch default_env null_dry_request net_all_ok [] 1700003600000 empty_world) = Uncaught TypeError
   \<and> kv (snd (fetch default_env null_dry_request net_all_ok [] 1700003600000 empty_world)) ''xmlrpc:last-dry''
       = None
   \<and> rq_body null_dry_request = None"
  using C6_dry_run_throws_without_snapshot by simp

section \<open>What the cron trigger does\<close>

lemma api_result_id: "api_result api = Some (Some i) \<Longrightarrow> i \<noteq> []"
  by (cases api) (auto simp: api_result_def truthy_def split: if_splits option.splits)

lemma detect_id:
  assumes "fst (detect env api w) = Some (Some i)"
  shows "i \<noteq> []"
  using assms api_result_id [of api i]
  by (auto simp: detect_def latestGithubCommit_def latestCloudflareDeploy_def Let_def
      split: if_splits)

lemma detect_frame:
  "\<exists>es. snd (detect env api w) = w\<lparr>events := events w @ es\<rparr>
        \<and> put_keys es = [] \<and> ping_urls es = [] \<and> get_keys es = []"
proof (cases "snd (detect env api w) = w")
  case True
  then have "snd (detect env api w) = w\<lparr>events := events w @ []\<rparr>" by simp
  then show ?thesis by (intro exI [of _ "[]"]) simp
next
  case False
  then obtain u where "snd (detect env api w) = w\<lparr>events := events w @ [ApiCall u]\<rparr>"
    by (auto simp: detect_def latestGithubCommit_def latestCloudflareDeploy_def Let_def
        split: if_splits)
  then show ?thesis by (intro exI [of _ "[ApiCall u]"]) simp
qed

lemma scheduled_seen:
  assumes "fst (detect env api w) = Some (Some i)"
    and "map_option fst (kv w LAST_KEY) = Some (Text i)"
  shows "scheduled env api net sched now w
           = (snd (detect env api w))\<lparr>events := events (snd (detect env api w)) @ [KvGet LAST_KEY]\<rparr>"
proof -
  obtain es where es: "snd (detect env api w) = w\<lparr>events := events w @ es\<rparr>"
    using detect_frame by blast
  have k: "kv (snd (detect env api w)) = kv w" by (simp add: es)
  have t: "truthy (Some i)" using detect_id [OF assms(1)] by (simp add: truthy_def)
  obtain l w0 where d: "detect env api w = (l, w0)" by (cases "detect env api w")
  with assms(1) have l: "l = Some (Some i)" by simp
  from d have w0: "w0 = snd (detect env api w)" by simp
  have m: "text_is (map_option fst (kv w LAST_KEY)) i"
    by (simp only: assms(2) text_is.simps)
  show ?thesis
    using m t k
    by (simp add: scheduled_def d l w0 [symmetric] Let_def kv_get_def orElse_def)
qed

text \<open>
  C8. For every scheduled invocation in which the detector returns a change id equal to
  the stored last-seen marker (key xmlrpc:last-seen), the invocation ends after
  reading that marker: no ping is dispatched, no write is made, and the store is
  unchanged.
\<close>

theorem C8_unchanged_marker_no_effect:
  assumes "fst (detect env api w) = Some (Some change_id)"
    and "map_option fst (kv w LAST_KEY) = Some (Text change_id)"
  shows "kv (scheduled env api net sched now w) = kv w
       \<and> put_keys (new_events w (scheduled env api net sched now w)) = []
       \<and> ping_urls (new_events w (scheduled env api net sched now w)) = []
       \<and> get_keys (new_events w (scheduled env api net sched now w)) = [LAST_KEY]"
proof -
  obtain es where es: "snd (detect env api w) = w\<lparr>events := events w @ es\<rparr>"
    and fr: "put_keys es = []" "ping_urls es = []" "get_keys es = []"
    using detect_frame by blast
  have s: "scheduled env api net sched now w = w\<lparr>events := events w @ es @ [KvGet LAST_KEY]\<rparr>"
    by (simp add: scheduled_seen [OF assms] es)
  have n: "new_events w (scheduled env api net sched now w) = es @ [KvGet LAST_KEY]"
    by (rule new_events_append) (simp add: s)
  show ?thesis
    using fr by (simp add: n put_keys_append ping_urls_append get_keys_append) (simp add: s)
qed

theorem C8_unchanged_marker_no_effect_witness:
  "fst (detect github_env (ApiResponse True (Some ''c0ffee'')) seen_world) = Some (Some ''c0ffee'')
   \<and> map_option fst (kv seen_world LAST_KEY) = Some (Text ''c0ffee'')
   \<and> kv (scheduled github_env (ApiResponse True (Some ''c0ffee'')) net_all_ok [] 7 seen_world)
       = kv seen_world
   \<and> put_keys (new_events seen_world
        (scheduled github_env (ApiResponse True (Some ''c0ffee'')) net_all_ok [] 7 seen_world)) = []
   \<and> ping_urls (new_events seen_world
        (scheduled github_env (ApiResponse True (Some ''c0ffee'')) net_all_ok [] 7 seen_world)) = []"
proof -
  have d: "fst (detect github_env (ApiResponse True (Some ''c0ffee'')) seen_world)
      = Some (Some ''c0ffee'')"
    by (simp add: detect_def github_env_def default_env_def latestGithubCommit_def truthy_def
        orElse_def api_result_def Let_def)
  have k: "map_option fst (kv seen_world LAST_KEY) = Some (Text ''c0ffee'')"
    by (simp add: seen_world_def)
  from C8_unchanged_marker_no_effect [OF d k, where net = net_all_ok and sched = "[]" and now = 7] d k
  show ?thesis by simp
qed


section \<open>A cursor at or past the end of the list\<close>

lemma doPing_report:
  assumes "is_dry opts \<or> \<not> rate_limited w" and "run_throws env payload opts w = None"
  shows "fst (doPing env payload opts net sched now w) = Done (run_report env payload opts net sched w)"
    and "ping_urls (new_events w (snd (doPing env payload opts net sched now w)))
           = ping_urls (run_pings env payload opts net sched w)"
proof -
  show "fst (doPing env payload opts net sched now w) = Done (run_report env payload opts net sched w)"
    using assms by (cases "is_dry opts") (simp_all add: doPing_dry doPing_real)
  show "ping_urls (new_events w (snd (doPing env payload opts net sched now w)))
           = ping_urls (run_pings env payload opts net sched w)"
  proof (cases "is_dry opts")
    case True
    have "new_events w (snd (doPing env payload opts net sched now w))
        = [KvGet ''xmlrpc:endpoints''] @ run_pings env payload opts net sched w"
      by (rule new_events_append) (simp add: doPing_dry [OF True assms(2)])
    then show ?thesis by (simp add: ping_urls_append)
  next
    case False
    with assms have r: "\<not> rate_limited w" by simp
    have "new_events w (snd (doPing env payload opts net sched now w))
        = [KvGet RL_KEY, KvGet ''xmlrpc:endpoints'',
              KvPut RL_KEY (Text (decimal now)) (Some HOUR)]
             @ run_pings env payload opts net sched w
             @ [KvPut ''xmlrpc:last-result''
                  (Doc now None (RunSummary (run_siteName env payload)
                     (run_siteUrl env payload) (run_feedUrl env payload)
                     (run_summary env payload opts net sched w))) (Some (7 * 24 * 3600))]"
      by (rule new_events_append) (simp add: doPing_real [OF False r assms(2)])
    then show ?thesis by (simp add: ping_urls_append)
  qed
qed

text \<open>
  The report of a run that returns one (not skipped, nothing thrown) carries the plan:
  its nextCursor, batchStart, batchEnd and batchCount are those of the planner on the
  resolved list, the clamped budget and the cursor of the options, which is what the
  cursor loop iterates.
\<close>

lemma doPing_reports_plan:
  assumes "is_dry opts \<or> \<not> rate_limited w" and "run_throws env payload opts w = None"
  shows "r_nextCursor (report (fst (doPing env payload opts net sched now w)))
           = bp_nextCursor (plan (run_endpoints env payload opts w)
               (SUBREQ_BUDGET_of (SUBREQ_BUDGET env)) (orElse (o_cursor opts) (Num 0)))"
    and "t_batchCount (r_totals (report (fst (doPing env payload opts net sched now w))))
           = length (bp_batch (plan (run_endpoints env payload opts w)
               (SUBREQ_BUDGET_of (SUBREQ_BUDGET env)) (orElse (o_cursor opts) (Num 0))))"
  by (simp_all add: doPing_report(1) [OF assms] run_report_def run_plan_def)

lemma budget_numeric:
  assumes "SUBREQ_BUDGET env \<noteq> Some NaN"
  shows "\<exists>b. SUBREQ_BUDGET_of (SUBREQ_BUDGET env) = Num b \<and> 1 \<le> b \<and> b \<le> 1000"
proof (cases "SUBREQ_BUDGET env")
  case None
  then show ?thesis by (simp add: SUBREQ_BUDGET_of_def rawBudget_def)
next
  case (Some v)
  with assms obtain n where "v = Num n" by (cases v) auto
  with Some show ?thesis by (simp add: SUBREQ_BUDGET_of_def rawBudget_def)
qed

lemma plan_past_end:
  assumes "int (length eps) \<le> c" "1 \<le> b"
  shows "plan eps (Num b) (Num c)
           = \<lparr>bp_start = Num c, bp_end = Num (int (length eps)), bp_batch = [], bp_nextCursor = None\<rparr>"
proof -
  have c: "0 \<le> c" using assms(1) by linarith
  have "js_slice eps (Num c) (Num (int (length eps))) = []"
    using assms c by (simp add: js_slice_num)
  then show ?thesis
    using assms c by (simp add: plan_def Let_def)
qed

lemma run_past_end:
  assumes "orElse (o_cursor opts) (Num 0) = Num c"
    and "SUBREQ_BUDGET env \<noteq> Some NaN"
    and "int (length (run_endpoints env payload opts w)) \<le> c"
  shows "run_plan env payload opts w
           = \<lparr>bp_start = Num c, bp_end = Num (int (length (run_endpoints env payload opts w))),
              bp_batch = [], bp_nextCursor = None\<rparr>"
    and "run_summary env payload opts net sched w = []"
    and "run_pings env payload opts net sched w = []"
proof -
  obtain b where b: "SUBREQ_BUDGET_of (SUBREQ_BUDGET env) = Num b" "1 \<le> b"
    using budget_numeric [OF assms(2)] by blast
  show p: "run_plan env payload opts w
           = \<lparr>bp_start = Num c, bp_end = Num (int (length (run_endpoints env payload opts w))),
              bp_batch = [], bp_nextCursor = None\<rparr>"
    by (simp add: run_plan_def b assms(1) plan_past_end [OF assms(3) b(2)])
  have pool: "run_pool env payload opts net sched w
      = \<lparr>pl_i = 0, pl_waiting = [], pl_started = [], pl_results = []\<rparr>"
    by (simp add: run_pool_def p runPool_Nil)
  show "run_summary env payload opts net sched w = []"
    by (simp add: run_summary_def pool apply_only_def)
  show "run_pings env payload opts net sched w = []"
    by (simp add: run_pings_def pool)
qed

lemma doPing_past_end:
  assumes "is_dry opts \<or> \<not> rate_limited w"
    and "run_throws env payload opts w = None"
    and "orElse (o_cursor opts) (Num 0) = Num c"
    and "SUBREQ_BUDGET env \<noteq> Some NaN"
    and "int (length (run_endpoints env payload opts w)) \<le> c"
  shows "fst (doPing env payload opts net sched now w)
           = Done ((run_report env payload opts net sched w)
               \<lparr>r_totals := \<lparr>t_total = length (run_endpoints env payload opts w),
                    t_batchStart = Num c,
                    t_batchEnd = Num (int (length (run_endpoints env payload opts w))),
                    t_batchCount = 0, t_ok = 0, t_fail = 0\<rparr>,
                 r_summary := [], r_nextCursor := None\<rparr>)"
    and "ping_urls (new_events w (snd (doPing env payload opts net sched now w))) = []"
proof -
  note pe = run_past_end [OF assms(3,4,5)]
  have "run_report env payload opts net sched w
      = (run_report env payload opts net sched w)
               \<lparr>r_totals := \<lparr>t_total = length (run_endpoints env payload opts w),
                    t_batchStart = Num c,
                    t_batchEnd = Num (int (length (run_endpoints env payload opts w))),
                    t_batchCount = 0, t_ok = 0, t_fail = 0\<rparr>,
                 r_summary := [], r_nextCursor := None\<rparr>"
    by (simp add: run_report_def pe)
  then show "fst (doPing env payload opts net sched now w)
           = Done ((run_report env payload opts net sched w)
               \<lparr>r_totals := \<lparr>t_total = length (run_endpoints env payload opts w),
                    t_batchStart = Num c,
                    t_batchEnd = Num (int (length (run_endpoints env payload opts w))),
                    t_batchCount = 0, t_ok = 0, t_fail = 0\<rparr>,
                 r_summary := [], r_nextCursor := None\<rparr>)"
    using doPing_report(1) [OF assms(1,2)] by simp
  show "ping_urls (new_events w (snd (doPing env payload opts net sched now w))) = []"
    by (simp add: doPing_report(2) [OF assms(1,2)] pe)
qed

lemma default_endpoints:
  "run_endpoints default_env no_payload opts empty_world
     = apply_limit (orElse (o_limit opts) (Num 0)) minimal_endpoints"
  "run_throws default_env no_payload opts empty_world = None"
  "run_throws bad_budget_env no_payload opts empty_world = None"
  "run_throws bad_concurrency_env no_payload opts empty_world = None"
  "run_throws default_env ten_payload opts empty_world = None"
  by (simp_all add: plain_resolution default_env_def bad_budget_env_def bad_concurrency_env_def
      no_payload_def empty_world_def)

text \<open>
  C10, as amended. For every invocation that is not skipped by the rate limit, whose
  endpoint list resolves (no source of the list throws), whose budget is numeric
  (SUBREQ_BUDGET unset or a number) and whose cursor is a number greater than or equal
  to the length of the (possibly limited) endpoint list: the run
  completes with status "done", an empty summary, batchCount = 0, nextCursor = null,
  total and batchEnd equal to the list length and batchStart equal to the cursor, and
  no ping is dispatched. batchEnd is strictly less than batchStart exactly when the
  cursor is greater than the length; for a cursor equal to the length the two are equal.
\<close>

theorem C10_cursor_past_end:
  assumes "is_dry opts \<or> \<not> rate_limited w"
    and "run_throws env payload opts w = None"
    and "orElse (o_cursor opts) (Num 0) = Num c"
    and "SUBREQ_BUDGET env \<noteq> Some NaN"
    and "int (length (run_endpoints env payload opts w)) \<le> c"
  shows "is_Done (fst (doPing env payload opts net sched now w))
       \<and> r_summary (report (fst (doPing env payload opts net sched now w))) = []
       \<and> t_batchCount (r_totals (report (fst (doPing env payload opts net sched now w)))) = 0
       \<and> r_nextCursor (report (fst (doPing env payload opts net sched now w))) = None
       \<and> t_total (r_totals (report (fst (doPing env payload opts net sched now w))))
           = length (run_endpoints env payload opts w)
       \<and> t_batchEnd (r_totals (report (fst (doPing env payload opts net sched now w))))
           = Num (int (length (run_endpoints env payload opts w)))
       \<and> t_batchStart (r_totals (report (fst (doPing env payload opts net sched now w)))) = Num c
       \<and> js_lt (t_batchEnd (r_totals (report (fst (doPing env payload opts net sched now w)))))
               (t_batchStart (r_totals (report (fst (doPing env payload opts net sched now w)))))
           = (int (length (run_endpoints env payload opts w)) < c)
       \<and> ping_urls (new_events w (snd (doPing env payload opts net sched now w))) = []"
  using doPing_past_end [OF assms, where net = net and sched = sched and now = now] by simp

theorem C10_cursor_past_end_witness:
  "(is_dry cursor12_opts \<or> \<not> rate_limited empty_world)
   \<and> run_throws default_env no_payload cursor12_opts empty_world = None
   \<and> orElse (o_cursor cursor12_opts) (Num 0) = Num 12
   \<and> SUBREQ_BUDGET default_env \<noteq> Some NaN
   \<and> int (length (run_endpoints default_env no_payload cursor12_opts empty_world)) \<le> 12
   \<and> t_batchEnd (r_totals (report (fst (doPing default_env no_payload cursor12_opts net_all_ok [] 5 empty_world))))
       = Num 9
   \<and> t_batchStart (r_totals (report (fst (doPing default_env no_payload cursor12_opts net_all_ok [] 5 empty_world))))
       = Num 12
   \<and> r_summary (report (fst (doPing default_env no_payload cursor12_opts net_all_ok [] 5 empty_world))) = []"
proof -
  have a: "is_dry cursor12_opts \<or> \<not> rate_limited empty_world"
    by (simp add: rate_limited_def empty_world_def)
  have b: "orElse (o_cursor cursor12_opts) (Num 0) = Num 12"
    by (simp add: cursor12_opts_def orElse_def)
  have c: "SUBREQ_BUDGET default_env \<noteq> Some NaN"
    by (simp add: default_env_def)
  have e: "run_endpoints default_env no_payload cursor12_opts empty_world = minimal_endpoints"
    by (simp add: default_endpoints(1) cursor12_opts_def no_opts_def orElse_def apply_limit_def)
  have d: "int (length (run_endpoints default_env no_payload cursor12_opts empty_world)) \<le> 12"
    by (simp add: e minimal_endpoints_def)
  note t = default_endpoints(2) [of cursor12_opts]
  from C10_cursor_past_end [OF a t b c d, where net = net_all_ok and sched = "[]" and now = 5] a t b c d
  show ?thesis by (simp add: e minimal_endpoints_def)
qed

theorem C10_batchEnd_not_below_batchStart:
  "is_Done (fst (doPing default_env no_payload cursor9_opts net_all_ok [] 5 empty_world))
   \<and> length (run_endpoints default_env no_payload cursor9_opts empty_world) = 9
   \<and> orElse (o_cursor cursor9_opts) (Num 0) = Num 9
   \<and> t_batchEnd (r_totals (report (fst (doPing default_env no_payload cursor9_opts net_all_ok [] 5 empty_world))))
       = Num 9
   \<and> t_batchStart (r_totals (report (fst (doPing default_env no_payload cursor9_opts net_all_ok [] 5 empty_world))))
       = Num 9
   \<and> \<not> js_lt (t_batchEnd (r_totals (report (fst (doPing default_env no_payload cursor9_opts net_all_ok [] 5 empty_world)))))
            (t_batchStart (r_totals (report (fst (doPing default_env no_payload cursor9_opts net_all_ok [] 5 empty_world)))))"
proof -
  have a: "is_dry cursor9_opts \<or> \<not> rate_limited empty_world"
    by (simp add: rate_limited_def empty_world_def)
  have b: "orElse (o_cursor cursor9_opts) (Num 0) = Num 9"
    by (simp add: cursor9_opts_def orElse_def)
  have c: "SUBREQ_BUDGET default_env \<noteq> Some NaN"
    by (simp add: default_env_def)
  have e: "run_endpoints default_env no_payload cursor9_opts empty_world = minimal_endpoints"
    by (simp add: default_endpoints(1) cursor9_opts_def no_opts_def orElse_def apply_limit_def)
  have d: "int (length (run_endpoints default_env no_payload cursor9_opts empty_world)) \<le> 9"
    by (simp add: e minimal_endpoints_def)
  note t = default_endpoints(2) [of cursor9_opts]
  from doPing_past_end(1) [OF a t b c d, where net = net_all_ok and sched = "[]" and now = 5] b
  show ?thesis by (simp add: e minimal_endpoints_def)
qed


section \<open>A rate-limited manual run\<close>

text \<open>
  What the manual trigger does when a non-dry request finds the rate-limit record:
  doPing returns the skipped report after the read of the record, and the handler
  then stores that report under xmlrpc:last-result.
\<close>

lemma fetch_skipped:
  assumes "authorised_post env rq" "q_dry rq \<noteq> Some ''1''" "rate_limited w"
    and "rq_body rq = Some body"
  shows "fetch env rq net sched now w
           = (if q_format rq = Some ''csv'' then Csv []
              else if q_format rq = Some ''ndjson'' then Ndjson []
              else Json (Skipped ''rate-limited (<=1/hour)''),
              \<lparr>kv = (kv w)(''xmlrpc:last-result'' \<mapsto>
                   (Doc now None (Report (Skipped ''rate-limited (<=1/hour)'')),
                    Some (7 * 24 * 3600))),
               events = events w @ [KvGet RL_KEY,
                   KvPut ''xmlrpc:last-result''
                     (Doc now None (Report (Skipped ''rate-limited (<=1/hour)'')))
                     (Some (7 * 24 * 3600))]\<rparr>)"
proof -
  have d: "\<not> is_dry (fetch_opts rq)" using assms(2) by (simp add: is_dry_fetch_opts)
  show ?thesis
    using assms(2)
    by (simp add: fetch_post [OF assms(1,4)] doPing_skipped [OF d assms(3)] Let_def kv_put_def)
qed

text \<open>
  C2. The claim: a manual non-dry invocation that finds an unexpired rate-limit record
  returns status "skipped" and writes no new record under xmlrpc:last-result. On the
  code, at an authorised POST without dry, half an hour after a real run whose result
  is stored: the response is the skipped report, and the handler has overwritten
  xmlrpc:last-result with a record that holds the skipped report, so the stored last
  real result is no longer the one from before.
\<close>

theorem C2_skipped_run_overwrites_last_result:
  "authorised_post default_env post_request \<and> q_dry post_request = None
   \<and> rate_limited locked_world
   \<and> kv locked_world ''xmlrpc:last-result'' = Some (earlier_result, Some (7 * 24 * 3600))
   \<and> fst (fetch default_env post_request net_all_ok [] 1700001800000 locked_world)
       = Json (Skipped ''rate-limited (<=1/hour)'')
   \<and> put_keys (new_events locked_world
         (snd (fetch default_env post_request net_all_ok [] 1700001800000 locked_world)))
       = [''xmlrpc:last-result'']
   \<and> kv (snd (fetch default_env post_request net_all_ok [] 1700001800000 locked_world))
         ''xmlrpc:last-result''
       = Some (Doc 1700001800000 None (Report (Skipped ''rate-limited (<=1/hour)'')),
               Some (7 * 24 * 3600))
   \<and> kv (snd (fetch default_env post_request net_all_ok [] 1700001800000 locked_world))
         ''xmlrpc:last-result''
       \<noteq> kv locked_world ''xmlrpc:last-result''"
proof -
  have a: "authorised_post default_env post_request"
    by (simp add: authorised_post_def default_env_def post_request_def)
  have d: "q_dry post_request \<noteq> Some ''1''" "q_dry post_request = None"
    "q_format post_request = None"
    by (simp_all add: post_request_def)
  have r: "rate_limited locked_world"
    by (simp add: rate_limited_def locked_world_def)
  have k: "kv locked_world ''xmlrpc:last-result'' = Some (earlier_result, Some (7 * 24 * 3600))"
    by (simp add: locked_world_def RL_KEY_def)
  have b: "rq_body post_request = Some no_payload"
    by (simp add: post_request_def)
  note f = fetch_skipped [OF a d(1) r b, where net = net_all_ok and sched = "[]"
      and now = 1700001800000]
  have n: "new_events locked_world
         (snd (fetch default_env post_request net_all_ok [] 1700001800000 locked_world))
      = [KvGet RL_KEY, KvPut ''xmlrpc:last-result''
                     (Doc 1700001800000 None (Report (Skipped ''rate-limited (<=1/hour)'')))
                     (Some (7 * 24 * 3600))]"
    by (rule new_events_append) (simp add: f)
  have e: "earlier_result \<noteq> Doc 1700001800000 None (Report (Skipped ''rate-limited (<=1/hour)''))"
    by (simp add: earlier_result_def)
  have p: "put_keys (new_events locked_world
         (snd (fetch default_env post_request net_all_ok [] 1700001800000 locked_world)))
      = [''xmlrpc:last-result'']"
    by (simp add: n)
  show ?thesis
    using a d r k e p by (simp add: f)
qed


theorem C2_skipped_run_overwrites_last_result_witness:
  "kv (snd (fetch default_env post_request net_all_ok [] 1700001800000 locked_world))
      ''xmlrpc:last-result''
     = Some (Doc 1700001800000 None (Report (Skipped ''rate-limited (<=1/hour)'')),
             Some (7 * 24 * 3600))
   \<and> kv locked_world ''xmlrpc:last-result'' = Some (earlier_result, Some (7 * 24 * 3600))"
  using C2_skipped_run_overwrites_last_result by simp

section \<open>Outcomes, totals and the output filter\<close>

lemma filter_count_mset:
  assumes "mset xs = mset ys"
  shows "length (filter P xs) = length (filter P ys)"
proof -
  have "mset (filter P xs) = mset (filter P ys)"
    using assms by (simp only: mset_filter)
  then have "size (mset (filter P xs)) = size (mset (filter P ys))"
    by (simp only:)
  then show ?thesis by (simp only: size_mset)
qed

lemma map_index_enumerate:
  "map (\<lambda>j. g j (xs ! j)) [0..<length xs] = map (\<lambda>(j, x). g j x) (enumerate 0 xs)"
proof -
  have "map (\<lambda>(j, x). g j x) (enumerate 0 xs) = map (\<lambda>(j, x). g j x) (zip [0..<length xs] xs)"
    by (simp add: enumerate_eq_zip)
  also have "\<dots> = map (\<lambda>j. g j (xs ! j)) [0..<length xs]"
    by (rule nth_equalityI) simp_all
  finally show ?thesis by simp
qed

lemma url_pingWithTimeout: "url (pingWithTimeout v u reply) = u"
  by (cases reply) (simp_all add: pingWithTimeout_def)

lemma concurrency_numeric:
  assumes "MAX_CONCURRENCY_of c = Num m"
  shows "1 \<le> m \<and> m \<le> 6"
  using assms by (cases c) (auto simp: MAX_CONCURRENCY_of_def)

text \<open>
  With a numeric effective concurrency, under every schedule: each URL of the batch is
  pinged once, in the order of the batch, and the outcomes of the pool are the
  outcomes of these pings in some order.
\<close>

lemma run_pool_exactly_once:
  assumes "run_concurrency env opts = Num m"
  shows "ping_urls (run_pings env payload opts net sched w) = bp_batch (run_plan env payload opts w)"
    and "mset (map url (pl_results (run_pool env payload opts net sched w)))
           = mset (bp_batch (run_plan env payload opts w))"
    and "length (filter P (pl_results (run_pool env payload opts net sched w)))
           = length (filter P (map (\<lambda>(j, u). pingWithTimeout (orElse (o_verbose opts) False) u (net j u))
               (enumerate 0 (bp_batch (run_plan env payload opts w)))))"
proof -
  let ?batch = "bp_batch (run_plan env payload opts w)"
  let ?fn = "\<lambda>i u. pingWithTimeout (orElse (o_verbose opts) False) u (net i u)"
  have m: "1 \<le> m"
    using assms concurrency_numeric by (simp add: run_concurrency_def)
  note once = runPool_exactly_once [OF m, where items = ?batch and fn = ?fn and sched = sched]
  have st: "pl_started (run_pool env payload opts net sched w) = [0..<length ?batch]"
    using once by (simp add: run_pool_def assms)
  have rs: "mset (pl_results (run_pool env payload opts net sched w))
      = mset (map (\<lambda>j. ?fn j (?batch ! j)) [0..<length ?batch])"
    using once by (simp add: run_pool_def assms)
  show "ping_urls (run_pings env payload opts net sched w) = ?batch"
    by (simp add: run_pings_def st ping_urls_pings map_nth)
  have "image_mset url (mset (pl_results (run_pool env payload opts net sched w)))
      = image_mset url (mset (map (\<lambda>j. ?fn j (?batch ! j)) [0..<length ?batch]))"
    by (simp only: rs)
  then have "mset (map url (pl_results (run_pool env payload opts net sched w)))
      = mset (map url (map (\<lambda>j. ?fn j (?batch ! j)) [0..<length ?batch]))"
    by (simp only: mset_map)
  also have "map url (map (\<lambda>j. ?fn j (?batch ! j)) [0..<length ?batch]) = ?batch"
    by (simp add: url_pingWithTimeout o_def map_nth)
  finally show "mset (map url (pl_results (run_pool env payload opts net sched w))) = mset ?batch" .
  have e: "map (\<lambda>j. ?fn j (?batch ! j)) [0..<length ?batch]
      = map (\<lambda>(j, u). ?fn j u) (enumerate 0 ?batch)"
    by (rule map_index_enumerate [where g = ?fn and xs = ?batch])
  show "length (filter P (pl_results (run_pool env payload opts net sched w)))
           = length (filter P (map (\<lambda>(j, u). ?fn j u) (enumerate 0 ?batch)))"
    using filter_count_mset [OF rs, of P] by (simp only: e)
qed


lemma only_fail_totals:
  assumes "o_only opts = Some ''fail''"
  shows "run_summary env payload opts net sched w
           = filter (\<lambda>r. \<not> ok r) (pl_results (run_pool env payload opts net sched w))"
    and "t_ok (r_totals (run_report env payload opts net sched w)) = 0"
    and "t_fail (r_totals (run_report env payload opts net sched w))
           = length (filter (\<lambda>r. \<not> ok r) (pl_results (run_pool env payload opts net sched w)))"
proof -
  show s: "run_summary env payload opts net sched w
           = filter (\<lambda>r. \<not> ok r) (pl_results (run_pool env payload opts net sched w))"
    using assms by (simp add: run_summary_def apply_only_def orElse_def)
  show "t_ok (r_totals (run_report env payload opts net sched w)) = 0"
    by (simp add: run_report_def s)
  show "t_fail (r_totals (run_report env payload opts net sched w))
           = length (filter (\<lambda>r. \<not> ok r) (pl_results (run_pool env payload opts net sched w)))"
    by (simp add: run_report_def s)
qed

lemma only_all_totals:
  assumes "orElse (o_only opts) ''all'' \<noteq> ''fail''" "orElse (o_only opts) ''all'' \<noteq> ''success''"
  shows "run_summary env payload opts net sched w = pl_results (run_pool env payload opts net sched w)"
    and "t_ok (r_totals (run_report env payload opts net sched w))
           = length (filter ok (pl_results (run_pool env payload opts net sched w)))"
    and "t_fail (r_totals (run_report env payload opts net sched w))
           = length (filter (\<lambda>r. \<not> ok r) (pl_results (run_pool env payload opts net sched w)))"
proof -
  show s: "run_summary env payload opts net sched w
      = pl_results (run_pool env payload opts net sched w)"
    using assms by (simp add: run_summary_def apply_only_def)
  show "t_ok (r_totals (run_report env payload opts net sched w))
           = length (filter ok (pl_results (run_pool env payload opts net sched w)))"
    by (simp add: run_report_def s)
  show "t_fail (r_totals (run_report env payload opts net sched w))
           = length (filter (\<lambda>r. \<not> ok r) (pl_results (run_pool env payload opts net sched w)))"
    by (simp add: run_report_def s)
qed

text \<open>
  C3. The claim: totals.ok and totals.fail are the numbers of successes and failures
  of the batch whatever the output filter is. On the code, at the batch of ten
  endpoints of which three answer 500 and seven answer 200, with only = "fail": the
  pool has ten outcomes, seven of them successes, the report has total = 10 and
  fail = 3 and a summary of exactly the three failing rows, but ok = 0: the totals are
  counted on the filtered rows.
\<close>

theorem C3_totals_follow_the_filter:
  "is_dry only_fail_opts \<and> o_only only_fail_opts = Some ''fail''
   \<and> length (pl_results (run_pool default_env ten_payload only_fail_opts net_first3_fail [] empty_world)) = 10
   \<and> length (filter ok
        (pl_results (run_pool default_env ten_payload only_fail_opts net_first3_fail [] empty_world))) = 7
   \<and> is_Done (fst (doPing default_env ten_payload only_fail_opts net_first3_fail [] 0 empty_world))
   \<and> t_total (r_totals (report (fst (doPing default_env ten_payload only_fail_opts net_first3_fail [] 0 empty_world)))) = 10
   \<and> t_ok (r_totals (report (fst (doPing default_env ten_payload only_fail_opts net_first3_fail [] 0 empty_world)))) = 0
   \<and> t_fail (r_totals (report (fst (doPing default_env ten_payload only_fail_opts net_first3_fail [] 0 empty_world)))) = 3
   \<and> length (r_summary (report (fst (doPing default_env ten_payload only_fail_opts net_first3_fail [] 0 empty_world)))) = 3"
proof -
  let ?pool = "run_pool default_env ten_payload only_fail_opts net_first3_fail [] empty_world"
  let ?rep = "run_report default_env ten_payload only_fail_opts net_first3_fail [] empty_world"
  have d: "is_dry only_fail_opts"
    by (simp add: is_dry_def only_fail_opts_def no_opts_def orElse_def)
  have o: "o_only only_fail_opts = Some ''fail''"
    by (simp add: only_fail_opts_def)
  have e: "run_endpoints default_env ten_payload only_fail_opts empty_world = ten_endpoints"
    by (simp add: run_endpoints_def run_resolution_def resolve_endpoints_def default_env_def
        ten_payload_def no_payload_def only_fail_opts_def no_opts_def empty_world_def orElse_def
        apply_limit_def)
  have bud: "SUBREQ_BUDGET_of (SUBREQ_BUDGET default_env) = Num 45"
    by (simp add: default_env_def SUBREQ_BUDGET_of_def rawBudget_def)
  have cur: "orElse (o_cursor only_fail_opts) (Num 0) = Num 0"
    by (simp add: only_fail_opts_def no_opts_def orElse_def)
  have p: "bp_batch (run_plan default_env ten_payload only_fail_opts empty_world) = ten_endpoints"
    by (simp add: run_plan_def e bud cur plan_def js_slice_def rel_index_def ten_endpoints_def)
  have c: "run_concurrency default_env only_fail_opts = Num 6"
    by (simp add: run_concurrency_def default_env_def only_fail_opts_def no_opts_def orElse_def
        MAX_CONCURRENCY_of_def)
  note cnt = run_pool_exactly_once(3) [OF c, where payload = ten_payload and net = net_first3_fail
      and sched = "[]" and w = empty_world]
  have n: "length (pl_results ?pool) = 10"
    using cnt [of "\<lambda>r. True"] by (simp add: p ten_endpoints_def)
  have k: "length (filter ok (pl_results ?pool)) = 7"
    by (simp add: cnt p ten_endpoints_def pingWithTimeout_def net_first3_fail_def res_ok_def)
  have f: "length (filter (\<lambda>r. \<not> ok r) (pl_results ?pool)) = 3"
    by (simp add: cnt p ten_endpoints_def pingWithTimeout_def net_first3_fail_def res_ok_def)
  note t = only_fail_totals [OF o, where env = default_env and payload = ten_payload
      and net = net_first3_fail and sched = "[]" and w = empty_world]
  have r: "fst (doPing default_env ten_payload only_fail_opts net_first3_fail [] 0 empty_world)
      = Done ?rep"
    by (simp add: doPing_dry [OF d default_endpoints(5)])
  have tt: "t_total (r_totals ?rep) = 10"
    by (simp add: run_report_def e ten_endpoints_def)
  have sm: "length (r_summary ?rep) = 3"
    using t(1) f by (simp add: run_report_def)
  show ?thesis
    using d o n k tt sm t(2) t(3) f by (simp add: r)
qed

section \<open>The clamps and values that are not numbers\<close>

text \<open>
  C7. The claim: for every environment and every option the report has
  1 <= subrequestBudget <= 1000 and 1 <= concurrencyUsed <= 6. On the code, with
  SUBREQ_BUDGET set to a text that is not numeric, the clamp
  \<^verbatim>\<open>Math.max(1, Math.min(rawBudget, 1000))\<close> yields \<^verbatim>\<open>NaN\<close>: the report has
  subrequestBudget = NaN, the planned slice of the nine default endpoints is empty,
  no ping is dispatched and nextCursor is null. With PING_CONCURRENCY set to such a
  text, concurrencyUsed = NaN. (For numeric values the clamps are in range:
  \<open>clamp_budget_num\<close>, \<open>concurrency_numeric\<close>.)
\<close>

theorem C7_clamp_passes_NaN:
  "SUBREQ_BUDGET bad_budget_env = Some NaN
   \<and> is_Done (fst (doPing bad_budget_env no_payload no_opts net_all_ok [] 5 empty_world))
   \<and> r_subrequestBudget (report (fst (doPing bad_budget_env no_payload no_opts net_all_ok [] 5 empty_world))) = NaN
   \<and> t_total (r_totals (report (fst (doPing bad_budget_env no_payload no_opts net_all_ok [] 5 empty_world)))) = 9
   \<and> t_batchCount (r_totals (report (fst (doPing bad_budget_env no_payload no_opts net_all_ok [] 5 empty_world)))) = 0
   \<and> r_nextCursor (report (fst (doPing bad_budget_env no_payload no_opts net_all_ok [] 5 empty_world))) = None
   \<and> ping_urls (new_events empty_world
        (snd (doPing bad_budget_env no_payload no_opts net_all_ok [] 5 empty_world))) = []
   \<and> PING_CONCURRENCY bad_concurrency_env = Some NaN
   \<and> r_concurrencyUsed (report (fst (doPing bad_concurrency_env no_payload no_opts net_all_ok [] 5 empty_world))) = NaN"
proof -
  let ?rep = "run_report bad_budget_env no_payload no_opts net_all_ok [] empty_world"
  have a: "is_dry no_opts \<or> \<not> rate_limited empty_world"
    by (simp add: rate_limited_def empty_world_def)
  have b: "SUBREQ_BUDGET bad_budget_env = Some NaN"
    by (simp add: bad_budget_env_def)
  have e: "run_endpoints bad_budget_env no_payload no_opts empty_world = minimal_endpoints"
    by (simp add: run_endpoints_def run_resolution_def resolve_endpoints_def bad_budget_env_def
        default_env_def no_payload_def no_opts_def empty_world_def orElse_def apply_limit_def)
  have p: "run_plan bad_budget_env no_payload no_opts empty_world
      = \<lparr>bp_start = Num 0, bp_end = NaN, bp_batch = [], bp_nextCursor = None\<rparr>"
    by (simp add: run_plan_def e plan_def b no_opts_def orElse_def
        SUBREQ_BUDGET_of_def rawBudget_def js_slice_def rel_index_def)
  have pool: "run_pool bad_budget_env no_payload no_opts net_all_ok [] empty_world
      = \<lparr>pl_i = 0, pl_waiting = [], pl_started = [], pl_results = []\<rparr>"
    by (simp add: run_pool_def p runPool_Nil)
  have r: "fst (doPing bad_budget_env no_payload no_opts net_all_ok [] 5 empty_world) = Done ?rep"
    by (rule doPing_report(1) [OF a default_endpoints(3)])
  have u: "ping_urls (new_events empty_world
        (snd (doPing bad_budget_env no_payload no_opts net_all_ok [] 5 empty_world))) = []"
    by (simp add: doPing_report(2) [OF a default_endpoints(3)] run_pings_def pool)
  have q: "r_subrequestBudget ?rep = NaN" "t_total (r_totals ?rep) = 9"
    "t_batchCount (r_totals ?rep) = 0" "r_nextCursor ?rep = None"
    by (simp_all add: run_report_def b e p SUBREQ_BUDGET_of_def rawBudget_def minimal_endpoints_def)
  have c: "PING_CONCURRENCY bad_concurrency_env = Some NaN"
    by (simp add: bad_concurrency_env_def)
  have rc: "fst (doPing bad_concurrency_env no_payload no_opts net_all_ok [] 5 empty_world)
      = Done (run_report bad_concurrency_env no_payload no_opts net_all_ok [] empty_world)"
    by (rule doPing_report(1) [OF a default_endpoints(4)])
  have cu: "r_concurrencyUsed (run_report bad_concurrency_env no_payload no_opts net_all_ok [] empty_world) = NaN"
    by (simp add: run_report_def run_concurrency_def c no_opts_def orElse_def MAX_CONCURRENCY_of_def)
  show ?thesis
    using b u q c cu by (simp add: r rc)
qed

text \<open>
  C9. The claim: the outcomes of the pool contain exactly one outcome per URL of the
  slice. On the code, with PING_CONCURRENCY set to a text that is not numeric, the
  effective concurrency is \<^verbatim>\<open>NaN\<close>, \<^verbatim>\<open>Array.from({ length: NaN })\<close> starts no
  worker and the pool returns no outcome: the slice holds the nine default endpoints,
  none is pinged, the summary is empty and batchCount = 9. (With a numeric
  concurrency each URL of the slice gets exactly one ping and one outcome, under every
  schedule: \<open>run_pool_exactly_once\<close>.)
\<close>

theorem C9_no_worker_no_outcome:
  "PING_CONCURRENCY bad_concurrency_env = Some NaN
   \<and> run_concurrency bad_concurrency_env no_opts = NaN
   \<and> bp_batch (run_plan bad_concurrency_env no_payload no_opts empty_world) = minimal_endpoints
   \<and> length minimal_endpoints = 9
   \<and> pl_results (run_pool bad_concurrency_env no_payload no_opts net_all_ok [] empty_world) = []
   \<and> ping_urls (new_events empty_world
        (snd (doPing bad_concurrency_env no_payload no_opts net_all_ok [] 5 empty_world))) = []
   \<and> is_Done (fst (doPing bad_concurrency_env no_payload no_opts net_all_ok [] 5 empty_world))
   \<and> r_summary (report (fst (doPing bad_concurrency_env no_payload no_opts net_all_ok [] 5 empty_world))) = []
   \<and> t_batchCount (r_totals (report (fst (doPing bad_concurrency_env no_payload no_opts net_all_ok [] 5 empty_world)))) = 9"
proof -
  let ?rep = "run_report bad_concurrency_env no_payload no_opts net_all_ok [] empty_world"
  have a: "is_dry no_opts \<or> \<not> rate_limited empty_world"
    by (simp add: rate_limited_def empty_world_def)
  have c: "PING_CONCURRENCY bad_concurrency_env = Some NaN"
    by (simp add: bad_concurrency_env_def)
  have rc: "run_concurrency bad_concurrency_env no_opts = NaN"
    by (simp add: run_concurrency_def c no_opts_def orElse_def MAX_CONCURRENCY_of_def)
  have e: "run_endpoints bad_concurrency_env no_payload no_opts empty_world = minimal_endpoints"
    by (simp add: run_endpoints_def run_resolution_def resolve_endpoints_def
        bad_concurrency_env_def default_env_def no_payload_def no_opts_def empty_world_def
        orElse_def apply_limit_def)
  have bud: "SUBREQ_BUDGET_of (SUBREQ_BUDGET bad_concurrency_env) = Num 45"
    by (simp add: bad_concurrency_env_def default_env_def SUBREQ_BUDGET_of_def rawBudget_def)
  have cur: "orElse (o_cursor no_opts) (Num 0) = Num 0"
    by (simp add: no_opts_def orElse_def)
  have p: "bp_batch (run_plan bad_concurrency_env no_payload no_opts empty_world) = minimal_endpoints"
    by (simp add: run_plan_def e bud cur plan_def js_slice_def rel_index_def minimal_endpoints_def)
  have pool: "run_pool bad_concurrency_env no_payload no_opts net_all_ok [] empty_world
      = \<lparr>pl_i = 0, pl_waiting = [], pl_started = [], pl_results = []\<rparr>"
    by (simp add: run_pool_def rc runPool_NaN)
  have r: "fst (doPing bad_concurrency_env no_payload no_opts net_all_ok [] 5 empty_world) = Done ?rep"
    by (rule doPing_report(1) [OF a default_endpoints(4)])
  have u: "ping_urls (new_events empty_world
        (snd (doPing bad_concurrency_env no_payload no_opts net_all_ok [] 5 empty_world))) = []"
    by (simp add: doPing_report(2) [OF a default_endpoints(4)] run_pings_def pool)
  have q: "r_summary ?rep = []" "t_batchCount (r_totals ?rep) = 9"
    by (simp_all add: run_report_def run_summary_def pool apply_only_def p minimal_endpoints_def)
  have l: "length minimal_endpoints = 9"
    by (simp add: minimal_endpoints_def)
  show ?thesis
    using c rc p l u q by (simp add: r pool)
qed


end
